theory Spec2Isabelle
  imports Complex_Main "HOL-Library.Word"
begin

unbundle bit_operations_syntax

text \<open>
  A model of the core of the feature-flag client: the bucketing hash and the evaluation
  engine (evaluate_flag.js), the in-memory feature store (feature_store.js), the
  variation methods of the client (index.js) and the stream processor (streaming.js).
  Each JavaScript function is a HOL function of the same name; an exception is a result
  \<open>Inl e\<close>, a mutated object is passed in and returned, and the functions of modules that
  are not among the sources are parameters. The definitions come first, the properties
  proved of them after.
\<close>

section \<open>JavaScript values\<close>

text \<open>
  The JSON-shaped values that user attributes, clause values and flag variations hold.
  An absent property (\<open>undefined\<close>) is \<open>None\<close> in the maps and options below.
  \<open>JInt\<close> is a number for which \<open>Number.isInteger\<close> holds; \<open>JNonInt s\<close> is any other
  number (a fraction, \<open>NaN\<close>, an infinity), carried as the text \<open>s\<close> that JavaScript's string
  conversion gives it, since no function modelled here computes with it. Strings are byte
  strings (UTF-8), which is what the hash function is fed.
\<close>

datatype jvalue =
    JNull
  | JBool bool
  | JInt int
  | JNonInt string
  | JStr string
  | JArr "jvalue list"
  | JObj "(string \<times> jvalue) list"

text \<open>JavaScript truthiness, as used by \<open>if (x)\<close>, \<open>!x\<close> and \<open>x || y\<close>.\<close>

fun truthy :: "jvalue \<Rightarrow> bool" where
  "truthy JNull = False"
| "truthy (JBool b) = b"
| "truthy (JInt i) = (i \<noteq> 0)"
| "truthy (JNonInt s) = (s \<noteq> ''NaN'')"
| "truthy (JStr s) = (s \<noteq> [])"
| "truthy (JArr xs) = True"
| "truthy (JObj ps) = True"

definition digitChar :: "nat \<Rightarrow> char" where
  "digitChar n = ''0123456789'' ! (n mod 10)"

function showNat :: "nat \<Rightarrow> string" where
  "showNat n = (if n < 10 then [digitChar n] else showNat (n div 10) @ [digitChar (n mod 10)])"
  by pat_completeness auto
termination
  by (relation "measure (\<lambda>n. n)") auto

definition showInt :: "int \<Rightarrow> string" where
  "showInt i = (if i < 0 then CHR ''-'' # showNat (nat (- i)) else showNat (nat i))"

fun joinComma :: "string list \<Rightarrow> string" where
  "joinComma [] = []"
| "joinComma [s] = s"
| "joinComma (s # t # ss) = s @ '','' @ joinComma (t # ss)"

text \<open>
  String conversion (\<open>'' + v\<close>, \<open>'.' + v\<close>, \<open>String(v)\<close>): integers in decimal (what
  JavaScript prints for integers below \<open>10^21\<close>), arrays joined with commas with \<open>null\<close>
  elements left empty, objects as \<open>[object Object]\<close>.
\<close>

fun jsString :: "jvalue \<Rightarrow> string" where
  "jsString JNull = ''null''"
| "jsString (JBool b) = (if b then ''true'' else ''false'')"
| "jsString (JInt i) = showInt i"
| "jsString (JNonInt s) = s"
| "jsString (JStr s) = s"
| "jsString (JArr xs) = joinComma (map (\<lambda>x. if x = JNull then [] else jsString x) xs)"
| "jsString (JObj ps) = ''[object Object]''"

section \<open>Users and attribute lookup (evaluate_flag.js)\<close>

text \<open>
  A user is a JavaScript object: its own top-level properties other than \<open>custom\<close>
  (\<open>props\<close>), and the \<open>custom\<close> object when there is one.
  \<open>Object.hasOwnProperty.call(user, attr)\<close> is \<open>props user attr \<noteq> None\<close>.
\<close>

record user =
  props :: "string \<rightharpoonup> jvalue"
  custom :: "(string \<rightharpoonup> jvalue) option"

definition builtins :: "string list" where
  "builtins = [''key'', ''ip'', ''country'', ''email'', ''firstName'', ''lastName'',
               ''avatar'', ''name'', ''anonymous'']"

definition userValue :: "user \<Rightarrow> string \<Rightarrow> jvalue" where
  "userValue u attr =
     (case (if attr \<in> set builtins then props u attr else None) of
        Some v \<Rightarrow> v
      | None \<Rightarrow>
          (case custom u of
             None \<Rightarrow> JNull
           | Some c \<Rightarrow> (case c attr of Some v \<Rightarrow> v | None \<Rightarrow> JNull)))"

fun bucketableStringValue :: "jvalue \<Rightarrow> string option" where
  "bucketableStringValue (JStr s) = Some s"
| "bucketableStringValue (JInt i) = Some (showInt i)"
| "bucketableStringValue _ = None"

section \<open>SHA-1 (Node's crypto module)\<close>

text \<open>
  \<open>sha1Hex\<close> calls \<open>crypto.createHash('sha1')\<close> of the Node runtime, which is not part of
  the repository. It is modelled by the algorithm of FIPS 180-4 on 32-bit words, with the
  message schedule kept as a window of sixteen words, and the digest printed as forty
  lower-case hexadecimal digits.
\<close>

type_synonym word32 = "32 word"
type_synonym sha1_state = "word32 \<times> word32 \<times> word32 \<times> word32 \<times> word32"

definition rotl :: "nat \<Rightarrow> word32 \<Rightarrow> word32" where
  "rotl n w = push_bit n w OR drop_bit (32 - n) w"

definition sha1_f :: "nat \<Rightarrow> word32 \<Rightarrow> word32 \<Rightarrow> word32 \<Rightarrow> word32" where
  "sha1_f t b c d =
     (if t < 20 then (b AND c) OR (NOT b AND d)
      else if t < 40 then b XOR c XOR d
      else if t < 60 then (b AND c) OR (b AND d) OR (c AND d)
      else b XOR c XOR d)"

definition sha1_k :: "nat \<Rightarrow> word32" where
  "sha1_k t =
     (if t < 20 then 0x5A827999
      else if t < 40 then 0x6ED9EBA1
      else if t < 60 then 0x8F1BBCDC
      else 0xCA62C1D6)"

fun be_words :: "nat list \<Rightarrow> word32 list" where
  "be_words (a # b # c # d # bs) =
     word_of_nat (((a * 256 + b) * 256 + c) * 256 + d) # be_words bs"
| "be_words _ = []"

definition be_bytes8 :: "nat \<Rightarrow> nat list" where
  "be_bytes8 n = map (\<lambda>k. (n div 256 ^ k) mod 256) [7, 6, 5, 4, 3, 2, 1, 0]"

definition sha1_pad :: "nat list \<Rightarrow> nat list" where
  "sha1_pad m =
     m @ [128] @ replicate ((119 - length m mod 64) mod 64) 0 @ be_bytes8 (8 * length m)"

definition next_w :: "word32 list \<Rightarrow> word32" where
  "next_w w = rotl 1 (w ! 13 XOR w ! 8 XOR w ! 2 XOR w ! 0)"

function sha1_rounds :: "nat \<Rightarrow> nat \<Rightarrow> word32 list \<Rightarrow> sha1_state \<Rightarrow> sha1_state" where
  "sha1_rounds n t w (a, b, c, d, e) =
     (if n \<le> t then (a, b, c, d, e)
      else sha1_rounds n (t + 1) (tl w @ [next_w w])
             (rotl 5 a + sha1_f t b c d + e + sha1_k t + hd w, a, rotl 30 b, c, d))"
  by pat_completeness auto
termination
  by (relation "measure (\<lambda>(n, t, w, s). n - t)") auto

definition compress :: "sha1_state \<Rightarrow> word32 list \<Rightarrow> sha1_state" where
  "compress h blk =
     (case h of (h0, h1, h2, h3, h4) \<Rightarrow>
        (case sha1_rounds 80 0 blk h of (a, b, c, d, e) \<Rightarrow>
           (h0 + a, h1 + b, h2 + c, h3 + d, h4 + e)))"

function sha1_blocks :: "sha1_state \<Rightarrow> word32 list \<Rightarrow> sha1_state" where
  "sha1_blocks h ws =
     (if ws = [] then h else sha1_blocks (compress h (take 16 ws)) (drop 16 ws))"
  by pat_completeness auto
termination
  by (relation "measure (\<lambda>(h, ws). length ws)") auto

definition sha1_init :: sha1_state where
  "sha1_init = (0x67452301, 0xEFCDAB89, 0x98BADCFE, 0x10325476, 0xC3D2E1F0)"

definition sha1 :: "nat list \<Rightarrow> sha1_state" where
  "sha1 m = sha1_blocks sha1_init (be_words (sha1_pad m))"

definition hexDigit :: "nat \<Rightarrow> char" where
  "hexDigit n = ''0123456789abcdef'' ! (n mod 16)"

definition hexWord :: "word32 \<Rightarrow> string" where
  "hexWord w = map (\<lambda>k. hexDigit (unat (drop_bit (4 * k) w))) [7, 6, 5, 4, 3, 2, 1, 0]"

definition sha1Hex :: "string \<Rightarrow> string" where
  "sha1Hex input =
     (case sha1 (map of_char input) of (a, b, c, d, e) \<Rightarrow>
        hexWord a @ hexWord b @ hexWord c @ hexWord d @ hexWord e)"

section \<open>Bucketing (evaluate_flag.js)\<close>

text \<open>
  \<open>parseInt(s, 16)\<close> on a string without sign, blanks or \<open>0x\<close> prefix, as a digest is: the
  leading hexadecimal digits are read, the first other character ends the number, and
  a string with no leading digit gives \<open>NaN\<close> (\<open>None\<close>).
\<close>

definition hexVal :: "char \<Rightarrow> nat option" where
  "hexVal c = map_of
     [(CHR ''0'', 0), (CHR ''1'', 1), (CHR ''2'', 2), (CHR ''3'', 3), (CHR ''4'', 4),
      (CHR ''5'', 5), (CHR ''6'', 6), (CHR ''7'', 7), (CHR ''8'', 8), (CHR ''9'', 9),
      (CHR ''a'', 10), (CHR ''b'', 11), (CHR ''c'', 12), (CHR ''d'', 13), (CHR ''e'', 14),
      (CHR ''f'', 15), (CHR ''A'', 10), (CHR ''B'', 11), (CHR ''C'', 12), (CHR ''D'', 13),
      (CHR ''E'', 14), (CHR ''F'', 15)] c"

fun hexDigits :: "nat \<Rightarrow> string \<Rightarrow> nat" where
  "hexDigits acc [] = acc"
| "hexDigits acc (c # cs) =
     (case hexVal c of None \<Rightarrow> acc | Some v \<Rightarrow> hexDigits (16 * acc + v) cs)"

definition parseInt16 :: "string \<Rightarrow> nat option" where
  "parseInt16 s =
     (case s of
        [] \<Rightarrow> None
      | c # cs \<Rightarrow> (case hexVal c of None \<Rightarrow> None | Some v \<Rightarrow> Some (hexDigits v cs)))"

text \<open>
  A JavaScript number that may be \<open>NaN\<close>: \<open>None\<close> is \<open>NaN\<close>. The quotient is exact here;
  the double of the program differs from it by a relative error below \<open>2^-52\<close>.
\<close>

type_synonym jsnum = "rat option"

definition numLess :: "jsnum \<Rightarrow> rat \<Rightarrow> bool" where
  "numLess x y = (case x of None \<Rightarrow> False | Some r \<Rightarrow> r < y)"

definition bucketUser :: "user \<Rightarrow> string \<Rightarrow> string \<Rightarrow> string \<Rightarrow> jsnum" where
  "bucketUser u key attr salt =
     (case bucketableStringValue (userValue u attr) of
        None \<Rightarrow> Some 0
      | Some idHash0 \<Rightarrow>
          (let idHash =
                 (case props u ''secondary'' of
                    None \<Rightarrow> idHash0
                  | Some sec \<Rightarrow> if truthy sec then idHash0 @ ''.'' @ jsString sec else idHash0);
               hashKey = key @ ''.'' @ salt @ ''.'' @ idHash
           in (case parseInt16 (take 15 (sha1Hex hashKey)) of
                 None \<Rightarrow> None
               | Some hashVal \<Rightarrow> Some (of_nat hashVal / 0xfffffffffffffff))))"

section \<open>The bucketing formula in the specification's words\<close>





text \<open>
  Attribute lookup as first stated: ten built-in names, \<open>secondary\<close> among them, read
  from the top level only, every other name from \<open>custom\<close>.
\<close>

definition claimed_builtins :: "string list" where
  "claimed_builtins = [''key'', ''ip'', ''country'', ''email'', ''firstName'', ''lastName'',
                       ''avatar'', ''name'', ''anonymous'', ''secondary'']"

definition claimed_userValue :: "user \<Rightarrow> string \<Rightarrow> jvalue" where
  "claimed_userValue u attr =
     (if attr \<in> set claimed_builtins
      then (case props u attr of Some v \<Rightarrow> v | None \<Rightarrow> JNull)
      else (case custom u of
              None \<Rightarrow> JNull
            | Some c \<Rightarrow> (case c attr of Some v \<Rightarrow> v | None \<Rightarrow> JNull)))"

section \<open>Example users\<close>

definition userKeyA :: user where
  "userKeyA = \<lparr>props = [''key'' \<mapsto> JStr ''userKeyA''], custom = None\<rparr>"


definition userBob :: user where
  "userBob =
     \<lparr>props = [''key'' \<mapsto> JStr ''x'', ''secondary'' \<mapsto> JStr ''s''],
      custom = Some [''name'' \<mapsto> JStr ''Bob'']\<rparr>"

section \<open>The in-memory feature store (feature_store.js)\<close>

text \<open>
  A data kind (versioned_data_kind.js is not among the sources; the store reads only
  \<open>kind.namespace\<close>, the stream processor also \<open>kind.streamApiPath\<close>).
\<close>

record kind =
  namespace :: string
  streamApiPath :: string

text \<open>
  What the store holds under a key: \<open>null\<close>, an item as it came from \<open>init\<close> or \<open>upsert\<close>
  (an object with \<open>key\<close>, \<open>version\<close>, possibly \<open>deleted\<close>, and the rest of its fields in
  \<open>body\<close>), or the object \<open>{version: v, deleted: true}\<close> that \<open>delete\<close> builds.
  \<open>clone\<close> is a JSON round trip, the identity on these values. The methods \<open>store.get\<close>,
  \<open>store.all\<close>, \<open>store.init\<close>, \<open>store.delete\<close>, \<open>store.upsert\<close> and \<open>store.initialized\<close> are
  \<open>store_get\<close> to \<open>store_initialized\<close>, taking the store's state and returning the new one.
\<close>

record 'a item =
  key :: string
  version :: int
  deleted :: bool
  body :: 'a

datatype 'a entry = Null | Item "'a item" | Tombstone int

fun entryVersion :: "'a entry \<Rightarrow> int option" where
  "entryVersion Null = None"
| "entryVersion (Item i) = Some (item.version i)"
| "entryVersion (Tombstone v) = Some v"

record 'a store =
  allData :: "string \<rightharpoonup> (string \<rightharpoonup> 'a entry)"
  initCalled :: bool

definition newStore :: "'a store" where
  "newStore = \<lparr>allData = Map.empty, initCalled = False\<rparr>"

definition store_get :: "'a store \<Rightarrow> kind \<Rightarrow> string \<Rightarrow> 'a item option" where
  "store_get s k ky =
     (let items = (case allData s (namespace k) of None \<Rightarrow> Map.empty | Some m \<Rightarrow> m)
      in (case items ky of
            None \<Rightarrow> None
          | Some Null \<Rightarrow> None
          | Some (Tombstone v) \<Rightarrow> None
          | Some (Item i) \<Rightarrow> if item.deleted i then None else Some i))"

definition store_all :: "'a store \<Rightarrow> kind \<Rightarrow> (string \<rightharpoonup> 'a item)" where
  "store_all s k =
     (let items = (case allData s (namespace k) of None \<Rightarrow> Map.empty | Some m \<Rightarrow> m)
      in (\<lambda>ky. case items ky of
            Some (Item i) \<Rightarrow> if item.deleted i then None else Some i
          | _ \<Rightarrow> None))"

definition store_init :: "'a store \<Rightarrow> (string \<rightharpoonup> (string \<rightharpoonup> 'a entry)) \<Rightarrow> 'a store" where
  "store_init s newData = \<lparr>allData = newData, initCalled = True\<rparr>"

text \<open>
  \<open>delete\<close>: when the namespace has no object yet, the fresh one is stored under
  \<open>allData[kind]\<close>, whose property name is the string conversion of the kind object,
  \<open>[object Object]\<close>, and the tombstone goes into that object.
\<close>

definition store_delete :: "'a store \<Rightarrow> kind \<Rightarrow> string \<Rightarrow> int \<Rightarrow> 'a store" where
  "store_delete s k ky v =
     (case allData s (namespace k) of
        None \<Rightarrow> s\<lparr>allData := (allData s)(''[object Object]'' \<mapsto> [ky \<mapsto> Tombstone v])\<rparr>
      | Some items \<Rightarrow>
          (case items ky of
             None \<Rightarrow> s\<lparr>allData := (allData s)(namespace k \<mapsto> items(ky \<mapsto> Tombstone v))\<rparr>
           | Some old \<Rightarrow>
               (case entryVersion old of
                  None \<Rightarrow> s\<lparr>allData := (allData s)(namespace k \<mapsto> items(ky \<mapsto> Tombstone v))\<rparr>
                | Some ov \<Rightarrow>
                    if ov < v
                    then s\<lparr>allData := (allData s)(namespace k \<mapsto> items(ky \<mapsto> Tombstone v))\<rparr>
                    else s)))"

definition store_upsert :: "'a store \<Rightarrow> kind \<Rightarrow> 'a item \<Rightarrow> 'a store" where
  "store_upsert s k it =
     (let ky = item.key it in
      (case allData s (namespace k) of
         None \<Rightarrow> s\<lparr>allData := (allData s)(namespace k \<mapsto> [ky \<mapsto> Item it])\<rparr>
       | Some items \<Rightarrow>
           (case items ky of
              None \<Rightarrow> s\<lparr>allData := (allData s)(namespace k \<mapsto> items(ky \<mapsto> Item it))\<rparr>
            | Some old \<Rightarrow>
                (case entryVersion old of
                   None \<Rightarrow> s
                 | Some ov \<Rightarrow>
                     if ov < item.version it
                     then s\<lparr>allData := (allData s)(namespace k \<mapsto> items(ky \<mapsto> Item it))\<rparr>
                     else s))))"

text \<open>The entry held for a kind and key, for stating properties (not a store operation).\<close>

definition entryOf :: "'a store \<Rightarrow> kind \<Rightarrow> string \<Rightarrow> 'a entry option" where
  "entryOf s k ky = (case allData s (namespace k) of None \<Rightarrow> None | Some items \<Rightarrow> items ky)"

definition store_initialized :: "'a store \<Rightarrow> bool" where
  "store_initialized s = initCalled s"

section \<open>Sequences of store updates, for the version invariant\<close>

text \<open>
  The two updates of a stream, \<open>upsert(kind, item)\<close> and \<open>delete(kind, key, version)\<close>,
  as data, so that a sequence of them can be applied to a store; the version an update
  carries for a given key; and the version stored for a key, if any.
\<close>

datatype 'a storeOp = OpUpsert "'a item" | OpDelete string int

fun applyOp :: "kind \<Rightarrow> 'a store \<Rightarrow> 'a storeOp \<Rightarrow> 'a store" where
  "applyOp k s (OpUpsert it) = store_upsert s k it"
| "applyOp k s (OpDelete ky v) = store_delete s k ky v"

fun opVersion :: "string \<Rightarrow> 'a storeOp \<Rightarrow> int option" where
  "opVersion ky (OpUpsert it) = (if item.key it = ky then Some (item.version it) else None)"
| "opVersion ky (OpDelete ky' v) = (if ky' = ky then Some v else None)"

definition storedVersion :: "'a store \<Rightarrow> kind \<Rightarrow> string \<Rightarrow> int option" where
  "storedVersion s k ky = (case entryOf s k ky of None \<Rightarrow> None | Some e \<Rightarrow> entryVersion e)"

fun maxVersion :: "int option \<Rightarrow> int option \<Rightarrow> int option" where
  "maxVersion None w = w"
| "maxVersion (Some v) None = Some v"
| "maxVersion (Some v) (Some w) = Some (max v w)"

section \<open>The data kinds (versioned_data_kind.js)\<close>

text \<open>
  Modelled from the spec: the registry of data kinds (versioned_data_kind.js is not among
  the sources). ``Two kinds exist in the base protocol: \<open>features\<close> and \<open>segments\<close>. A kind
  has a unique \<open>namespace\<close> string and a \<open>streamApiPath\<close> prefix (e.g. \<open>/flags/\<close> and
  \<open>/segments/\<close>) used to route patch/delete events.''
\<close>

definition features :: kind where
  "features = \<lparr>namespace = ''features'', streamApiPath = ''/flags/''\<rparr>"

definition segments :: kind where
  "segments = \<lparr>namespace = ''segments'', streamApiPath = ''/segments/''\<rparr>"

definition dataKind :: "kind list" where
  "dataKind = [features, segments]"

section \<open>Example items and store contents\<close>

definition mkItem :: "string \<Rightarrow> int \<Rightarrow> unit item" where
  "mkItem ky v = \<lparr>key = ky, version = v, deleted = False, body = ()\<rparr>"

definition initedStore :: "unit store" where
  "initedStore =
     store_init newStore
       [''features'' \<mapsto> [''foo'' \<mapsto> Item (mkItem ''foo'' 10), ''bar'' \<mapsto> Item (mkItem ''bar'' 10)]]"

definition nullEntryStore :: "unit store" where
  "nullEntryStore = store_init newStore [''features'' \<mapsto> [''foo'' \<mapsto> Null]]"

section \<open>Flags, segments and results (evaluate_flag.js)\<close>

text \<open>
  The flag data as the evaluator reads it. A field the code guards against absence
  (\<open>flag.targets || []\<close>, \<open>rule.clauses || []\<close> of a segment rule, \<open>target.values\<close>) is a
  list, absence being the empty list; a field whose absence the code tells apart is an
  option (\<open>rule.clauses\<close>, \<open>variation\<close>, \<open>rollout\<close>, \<open>offVariation\<close>, \<open>fallthrough\<close>,
  \<open>weight\<close>, \<open>bucketBy\<close>); \<open>flag.variations\<close> and \<open>clause.values\<close> are read unguarded, so
  they are options whose absence raises a \<open>TypeError\<close>. Keys and salts are strings,
  weights and the variation indices of a rollout are integers, as in the data model. Field names shared by several records are
  written qualified (\<open>flag.key\<close>, \<open>segment.key\<close>); the rule's \<open>id\<close> is \<open>id'\<close>.
\<close>

record clause =
  attribute :: string
  op :: string
  "values" :: "jvalue list option"
  negate :: bool

record weightedVariation =
  variation :: int
  weight :: int

record rollout =
  variations :: "weightedVariation list"
  bucketBy :: "string option"

record variationOrRollout =
  variation :: "int option"
  rollout :: "rollout option"

record rule = variationOrRollout +
  id' :: "string option"
  clauses :: "clause list option"

record target =
  variation :: "int option"
  "values" :: "jvalue list"

record prerequisite =
  key :: string
  variation :: int

record segmentRule =
  clauses :: "clause list"
  weight :: "int option"
  bucketBy :: "string option"

record segment =
  key :: string
  salt :: string
  included :: "jvalue list"
  excluded :: "jvalue list"
  rules :: "segmentRule list"

record flag =
  key :: string
  on :: bool
  variations :: "jvalue list option"
  offVariation :: "int option"
  fallthrough :: "variationOrRollout option"
  prerequisites :: "prerequisite list"
  targets :: "target list"
  rules :: "rule list"
  salt :: string

text \<open>
  The feature store as the evaluator uses it: \<open>featureStore.get(dataKind.features, key)\<close>
  and \<open>featureStore.get(dataKind.segments, value)\<close>, \<open>None\<close> for \<open>null\<close>.
\<close>

record featureStore =
  getFeature :: "string \<Rightarrow> flag option"
  getSegment :: "jvalue \<Rightarrow> segment option"

datatype js_error = TypeError

datatype reason =
    OFF
  | FALLTHROUGH
  | TARGET_MATCH
  | RULE_MATCH "nat option" "string option"
  | PREREQUISITE_FAILED string
  | ERROR string

record detail =
  "value" :: jvalue
  variationIndex :: "int option"
  reason :: reason

text \<open>What the evaluation functions return: \<open>err\<close> is the message of the \<open>Error\<close>, if any.\<close>

record evalResult =
  err :: "string option"
  detail :: detail

record 'e evaluation =
  err :: "string option"
  detail :: detail
  events :: "'e list"

definition errorResult :: "string \<Rightarrow> detail" where
  "errorResult errorKind = \<lparr>value = JNull, variationIndex = None, reason = ERROR errorKind\<rparr>"

text \<open>Strict equality \<open>===\<close> on JSON values: by value on primitives, never on objects
  that were built apart, and \<open>NaN\<close> differs from itself.\<close>

fun strictEq :: "jvalue \<Rightarrow> jvalue \<Rightarrow> bool" where
  "strictEq JNull JNull = True"
| "strictEq (JBool a) (JBool b) = (a = b)"
| "strictEq (JInt a) (JInt b) = (a = b)"
| "strictEq (JNonInt a) (JNonInt b) = (a = b \<and> a \<noteq> ''NaN'')"
| "strictEq (JStr a) (JStr b) = (a = b)"
| "strictEq _ _ = False"

section \<open>Clauses, segments and rules\<close>

definition maybeNegate :: "clause \<Rightarrow> bool \<Rightarrow> bool" where
  "maybeNegate c b = (if negate c then \<not> b else b)"

fun matchAnyLoop :: "(jvalue \<Rightarrow> jvalue \<Rightarrow> bool) \<Rightarrow> jvalue \<Rightarrow> jvalue list \<Rightarrow> bool" where
  "matchAnyLoop matchFn v [] = False"
| "matchAnyLoop matchFn v (x # xs) = (if matchFn v x then True else matchAnyLoop matchFn v xs)"

definition matchAny ::
  "(jvalue \<Rightarrow> jvalue \<Rightarrow> bool) \<Rightarrow> jvalue \<Rightarrow> jvalue list option \<Rightarrow> js_error + bool" where
  "matchAny matchFn v vs =
     (case vs of None \<Rightarrow> Inl TypeError | Some xs \<Rightarrow> Inr (matchAnyLoop matchFn v xs))"

text \<open>The loop over the elements of an array-valued user attribute.\<close>

fun arrayLoop ::
  "(jvalue \<Rightarrow> jvalue \<Rightarrow> bool) \<Rightarrow> clause \<Rightarrow> jvalue list \<Rightarrow> js_error + bool" where
  "arrayLoop matchFn c [] = Inr (maybeNegate c False)"
| "arrayLoop matchFn c (x # xs) =
     (case matchAny matchFn x (clause.values c) of
        Inl e \<Rightarrow> Inl e
      | Inr m \<Rightarrow> if m then Inr (maybeNegate c True) else arrayLoop matchFn c xs)"

text \<open>
  \<open>operators.fn\<close> (operators.js is not among the sources) is the parameter \<open>opfn\<close>: the
  match function of an operator name, here with its result already read as a truth value.
\<close>

definition clauseMatchUserNoSegments ::
  "(string \<Rightarrow> jvalue \<Rightarrow> jvalue \<Rightarrow> bool) \<Rightarrow> clause \<Rightarrow> user \<Rightarrow> js_error + bool" where
  "clauseMatchUserNoSegments opfn c u =
     (let uValue = userValue u (attribute c) in
      if uValue = JNull then Inr False
      else
        (let matchFn = opfn (op c) in
         (case uValue of
            JArr xs \<Rightarrow> arrayLoop matchFn c xs
          | _ \<Rightarrow>
              (case matchAny matchFn uValue (clause.values c) of
                 Inl e \<Rightarrow> Inl e
               | Inr m \<Rightarrow> Inr (maybeNegate c m)))))"

fun segmentRuleClauses ::
  "(string \<Rightarrow> jvalue \<Rightarrow> jvalue \<Rightarrow> bool) \<Rightarrow> clause list \<Rightarrow> user \<Rightarrow> js_error + bool" where
  "segmentRuleClauses opfn [] u = Inr True"
| "segmentRuleClauses opfn (c # cs) u =
     (case clauseMatchUserNoSegments opfn c u of
        Inl e \<Rightarrow> Inl e
      | Inr m \<Rightarrow> if \<not> m then Inr False else segmentRuleClauses opfn cs u)"

text \<open>\<open>bucketBy || 'key'\<close>: an absent or empty attribute name stands for \<open>key\<close>.\<close>

definition orKey :: "string option \<Rightarrow> string" where
  "orKey b = (case b of None \<Rightarrow> ''key'' | Some s \<Rightarrow> if s = [] then ''key'' else s)"

definition segmentRuleMatchUser ::
  "(string \<Rightarrow> jvalue \<Rightarrow> jvalue \<Rightarrow> bool) \<Rightarrow> segmentRule \<Rightarrow> user \<Rightarrow> string \<Rightarrow> string
     \<Rightarrow> js_error + bool" where
  "segmentRuleMatchUser opfn r u segmentKey slt =
     (case segmentRuleClauses opfn (segmentRule.clauses r) u of
        Inl e \<Rightarrow> Inl e
      | Inr allMet \<Rightarrow>
          if \<not> allMet then Inr False
          else
            (case segmentRule.weight r of
               None \<Rightarrow> Inr True
             | Some w \<Rightarrow>
                 (let bucket = bucketUser u segmentKey (orKey (segmentRule.bucketBy r)) slt
                  in Inr (numLess bucket (of_int w / 100000)))))"

fun segmentRulesLoop ::
  "(string \<Rightarrow> jvalue \<Rightarrow> jvalue \<Rightarrow> bool) \<Rightarrow> segmentRule list \<Rightarrow> user \<Rightarrow> string \<Rightarrow> string
     \<Rightarrow> js_error + bool" where
  "segmentRulesLoop opfn [] u segmentKey slt = Inr False"
| "segmentRulesLoop opfn (r # rs) u segmentKey slt =
     (case segmentRuleMatchUser opfn r u segmentKey slt of
        Inl e \<Rightarrow> Inl e
      | Inr m \<Rightarrow> if m then Inr True else segmentRulesLoop opfn rs u segmentKey slt)"

text \<open>\<open>list.indexOf(x) >= 0\<close>: some element is strictly equal to \<open>x\<close>.\<close>

fun indexOfNonNeg :: "jvalue list \<Rightarrow> jvalue \<Rightarrow> bool" where
  "indexOfNonNeg [] x = False"
| "indexOfNonNeg (y # ys) x = (if strictEq y x then True else indexOfNonNeg ys x)"

definition segmentMatchUser ::
  "(string \<Rightarrow> jvalue \<Rightarrow> jvalue \<Rightarrow> bool) \<Rightarrow> segment \<Rightarrow> user \<Rightarrow> js_error + bool" where
  "segmentMatchUser opfn sg u =
     (case props u ''key'' of
        None \<Rightarrow> Inr False
      | Some k \<Rightarrow>
          if truthy k then
            (if indexOfNonNeg (included sg) k then Inr True
             else if indexOfNonNeg (excluded sg) k then Inr False
             else segmentRulesLoop opfn (segment.rules sg) u (segment.key sg) (segment.salt sg))
          else Inr False)"

fun segmentMatchLoop ::
  "(string \<Rightarrow> jvalue \<Rightarrow> jvalue \<Rightarrow> bool) \<Rightarrow> featureStore \<Rightarrow> clause \<Rightarrow> jvalue list \<Rightarrow> user
     \<Rightarrow> js_error + bool" where
  "segmentMatchLoop opfn fs c [] u = Inr (maybeNegate c False)"
| "segmentMatchLoop opfn fs c (v # vs) u =
     (case getSegment fs v of
        None \<Rightarrow> segmentMatchLoop opfn fs c vs u
      | Some sg \<Rightarrow>
          (case segmentMatchUser opfn sg u of
             Inl e \<Rightarrow> Inl e
           | Inr m \<Rightarrow> if m then Inr (maybeNegate c True) else segmentMatchLoop opfn fs c vs u))"

definition clauseMatchUser ::
  "(string \<Rightarrow> jvalue \<Rightarrow> jvalue \<Rightarrow> bool) \<Rightarrow> featureStore \<Rightarrow> clause \<Rightarrow> user \<Rightarrow> js_error + bool" where
  "clauseMatchUser opfn fs c u =
     (if op c = ''segmentMatch'' then
        (case clause.values c of
           None \<Rightarrow> Inl TypeError
         | Some vs \<Rightarrow> segmentMatchLoop opfn fs c vs u)
      else clauseMatchUserNoSegments opfn c u)"

fun ruleClausesLoop ::
  "(string \<Rightarrow> jvalue \<Rightarrow> jvalue \<Rightarrow> bool) \<Rightarrow> featureStore \<Rightarrow> clause list \<Rightarrow> user
     \<Rightarrow> js_error + bool" where
  "ruleClausesLoop opfn fs [] u = Inr True"
| "ruleClausesLoop opfn fs (c # cs) u =
     (case clauseMatchUser opfn fs c u of
        Inl e \<Rightarrow> Inl e
      | Inr matched \<Rightarrow> if \<not> matched then Inr False else ruleClausesLoop opfn fs cs u)"

definition ruleMatchUser ::
  "(string \<Rightarrow> jvalue \<Rightarrow> jvalue \<Rightarrow> bool) \<Rightarrow> featureStore \<Rightarrow> rule \<Rightarrow> user \<Rightarrow> js_error + bool" where
  "ruleMatchUser opfn fs r u =
     (case rule.clauses r of
        None \<Rightarrow> Inr False
      | Some cs \<Rightarrow> ruleClausesLoop opfn fs cs u)"

section \<open>Variations and rollouts\<close>

definition getVariation :: "flag \<Rightarrow> int option \<Rightarrow> reason \<Rightarrow> js_error + evalResult" where
  "getVariation f index rsn =
     (case index of
        None \<Rightarrow> Inr \<lparr>evalResult.err = Some ''Invalid variation index in flag'',
                     detail = errorResult ''MALFORMED_FLAG''\<rparr>
      | Some i \<Rightarrow>
          if i < 0
          then Inr \<lparr>evalResult.err = Some ''Invalid variation index in flag'',
                    detail = errorResult ''MALFORMED_FLAG''\<rparr>
          else
            (case flag.variations f of
               None \<Rightarrow> Inl TypeError
             | Some vs \<Rightarrow>
                 if i \<ge> int (length vs)
                 then Inr \<lparr>evalResult.err = Some ''Invalid variation index in flag'',
                           detail = errorResult ''MALFORMED_FLAG''\<rparr>
                 else Inr \<lparr>evalResult.err = None,
                           detail = \<lparr>value = vs ! nat i, variationIndex = Some i, reason = rsn\<rparr>\<rparr>))"

definition getOffResult :: "flag \<Rightarrow> reason \<Rightarrow> js_error + evalResult" where
  "getOffResult f rsn =
     (case offVariation f of
        None \<Rightarrow> Inr \<lparr>evalResult.err = None,
                     detail = \<lparr>value = JNull, variationIndex = None, reason = rsn\<rparr>\<rparr>
      | Some i \<Rightarrow> getVariation f (Some i) rsn)"

text \<open>
  The loop of \<open>variationForUser\<close> over the rollout's variations, \<open>acc\<close> being the
  program's \<open>sum\<close> of the weights so far (exact here, a double in the program); \<open>lst\<close>
  is the last variation seen, returned when the bucket is below no partial sum.
\<close>

fun rolloutLoop :: "jsnum \<Rightarrow> rat \<Rightarrow> weightedVariation \<Rightarrow> weightedVariation list \<Rightarrow> int" where
  "rolloutLoop bucket acc lst [] = weightedVariation.variation lst"
| "rolloutLoop bucket acc lst (variate # vs) =
     (let acc' = acc + of_int (weightedVariation.weight variate) / 100000
      in if numLess bucket acc' then weightedVariation.variation variate
         else rolloutLoop bucket acc' variate vs)"

definition variationForUser :: "'a variationOrRollout_scheme \<Rightarrow> user \<Rightarrow> flag \<Rightarrow> int option" where
  "variationForUser r u f =
     (case variationOrRollout.variation r of
        Some v \<Rightarrow> Some v
      | None \<Rightarrow>
          (case variationOrRollout.rollout r of
             None \<Rightarrow> None
           | Some ro \<Rightarrow>
               (case rollout.variations ro of
                  [] \<Rightarrow> None
                | w # ws \<Rightarrow>
                    (let bucket = bucketUser u (flag.key f) (orKey (rollout.bucketBy ro)) (flag.salt f)
                     in Some (rolloutLoop bucket 0 w (w # ws))))))"

definition getResultForVariationOrRollout ::
  "'a variationOrRollout_scheme option \<Rightarrow> user \<Rightarrow> flag \<Rightarrow> reason \<Rightarrow> js_error + evalResult" where
  "getResultForVariationOrRollout r u f rsn =
     (case r of
        None \<Rightarrow> Inr \<lparr>evalResult.err = Some ''Fallthrough variation undefined'',
                     detail = errorResult ''MALFORMED_FLAG''\<rparr>
      | Some r' \<Rightarrow>
          (case variationForUser r' u f of
             None \<Rightarrow> Inr \<lparr>evalResult.err = Some ''Variation/rollout object with no variation or rollout'',
                          detail = errorResult ''MALFORMED_FLAG''\<rparr>
           | Some index \<Rightarrow> getVariation f (Some index) rsn))"

section \<open>Targets, rules, prerequisites\<close>

text \<open>The first target one of whose values is strictly equal to the user's key.\<close>

fun targetsLoop :: "target list \<Rightarrow> jvalue option \<Rightarrow> target option" where
  "targetsLoop [] k = None"
| "targetsLoop (t # ts) k =
     (if (case k of None \<Rightarrow> False | Some kv \<Rightarrow> indexOfNonNeg (target.values t) kv)
      then Some t else targetsLoop ts k)"

text \<open>The index of the first rule of the flag whose id is that of the matched rule.\<close>

fun ruleIndexLoop :: "rule list \<Rightarrow> string option \<Rightarrow> nat \<Rightarrow> nat option" where
  "ruleIndexLoop [] rid i = None"
| "ruleIndexLoop (r # rs) rid i = (if id' r = rid then Some i else ruleIndexLoop rs rid (i + 1))"

fun rulesLoop ::
  "(string \<Rightarrow> jvalue \<Rightarrow> jvalue \<Rightarrow> bool) \<Rightarrow> featureStore \<Rightarrow> flag \<Rightarrow> rule list \<Rightarrow> user
     \<Rightarrow> js_error + evalResult" where
  "rulesLoop opfn fs f [] u =
     getResultForVariationOrRollout (fallthrough f) u f FALLTHROUGH"
| "rulesLoop opfn fs f (r # rs) u =
     (case ruleMatchUser opfn fs r u of
        Inl e \<Rightarrow> Inl e
      | Inr matched \<Rightarrow>
          if matched
          then getResultForVariationOrRollout (Some r) u f
                 (RULE_MATCH (ruleIndexLoop (flag.rules f) (id' r) 0) (id' r))
          else rulesLoop opfn fs f rs u)"

definition evalRules ::
  "(string \<Rightarrow> jvalue \<Rightarrow> jvalue \<Rightarrow> bool) \<Rightarrow> featureStore \<Rightarrow> flag \<Rightarrow> user
     \<Rightarrow> js_error + evalResult" where
  "evalRules opfn fs f u =
     (case targetsLoop (targets f) (props u ''key'') of
        Some t \<Rightarrow> getVariation f (target.variation t) TARGET_MATCH
      | None \<Rightarrow> rulesLoop opfn fs f (flag.rules f) u)"

text \<open>
  \<open>evalInternal\<close> and \<open>checkPrerequisites\<close> call each other through the store, so a
  prerequisite cycle makes the program recurse until the stack is exhausted. The model
  counts the nesting down: \<open>None\<close> is a computation cut off at depth \<open>d\<close>. The events pushed
  so far are threaded through; an exception loses them with the rest of the frame.
  \<open>eventFactory.newEvalEvent(prereqFlag, user, detail, null, flag)\<close> is the parameter
  \<open>newEvalEvent\<close> (event_factory.js is not among the sources).
\<close>

record prereqFailure =
  err :: "string option"
  reason :: reason

text \<open>
  \<open>checkPrerequisites\<close> returns \<open>{err: null, detail: null}\<close> when every prerequisite is
  met (\<open>None\<close> below) and \<open>{err, reason}\<close> with a \<open>PREREQUISITE_FAILED\<close> reason otherwise.
\<close>

fun evalInternal ::
  "nat \<Rightarrow> (string \<Rightarrow> jvalue \<Rightarrow> jvalue \<Rightarrow> bool) \<Rightarrow> (flag \<Rightarrow> user \<Rightarrow> detail \<Rightarrow> flag \<Rightarrow> 'e)
     \<Rightarrow> featureStore \<Rightarrow> flag \<Rightarrow> user \<Rightarrow> 'e list \<Rightarrow> (js_error + evalResult \<times> 'e list) option"
and checkPrerequisites ::
  "nat \<Rightarrow> (string \<Rightarrow> jvalue \<Rightarrow> jvalue \<Rightarrow> bool) \<Rightarrow> (flag \<Rightarrow> user \<Rightarrow> detail \<Rightarrow> flag \<Rightarrow> 'e)
     \<Rightarrow> featureStore \<Rightarrow> flag \<Rightarrow> prerequisite list \<Rightarrow> user \<Rightarrow> 'e list
     \<Rightarrow> (js_error + prereqFailure option \<times> 'e list) option"
where
  "evalInternal 0 opfn newEvalEvent fs f u evs = None"
| "evalInternal (Suc d) opfn newEvalEvent fs f u evs =
     (if \<not> on f then
        Some (case getOffResult f OFF of Inl e \<Rightarrow> Inl e | Inr r \<Rightarrow> Inr (r, evs))
      else
        (case checkPrerequisites d opfn newEvalEvent fs f (prerequisites f) u evs of
           None \<Rightarrow> None
         | Some (Inl e) \<Rightarrow> Some (Inl e)
         | Some (Inr (Some failure, evs')) \<Rightarrow>
             Some (case getOffResult f (prereqFailure.reason failure) of
                     Inl e \<Rightarrow> Inl e
                   | Inr r \<Rightarrow> Inr (r, evs'))
         | Some (Inr (None, evs')) \<Rightarrow>
             Some (case evalRules opfn fs f u of Inl e \<Rightarrow> Inl e | Inr r \<Rightarrow> Inr (r, evs'))))"
| "checkPrerequisites d opfn newEvalEvent fs f [] u evs = Some (Inr (None, evs))"
| "checkPrerequisites d opfn newEvalEvent fs f (prereq # ps) u evs =
     (case getFeature fs (prerequisite.key prereq) of
        None \<Rightarrow>
          Some (Inr (Some \<lparr>prereqFailure.err =
                              Some (''Could not retrieve prerequisite feature flag ''
                                    @ [CHR 0x22] @ prerequisite.key prereq @ [CHR 0x22]),
                            reason = PREREQUISITE_FAILED (prerequisite.key prereq)\<rparr>, evs))
      | Some prereqFlag \<Rightarrow>
          (case evalInternal d opfn newEvalEvent fs prereqFlag u evs of
             None \<Rightarrow> None
           | Some (Inl e) \<Rightarrow> Some (Inl e)
           | Some (Inr (r, evs')) \<Rightarrow>
               (let evs'' = evs' @ [newEvalEvent prereqFlag u (evalResult.detail r) f] in
                if evalResult.err r \<noteq> None then
                  Some (Inr (Some \<lparr>prereqFailure.err = evalResult.err r,
                                    reason = PREREQUISITE_FAILED (prerequisite.key prereq)\<rparr>, evs''))
                else if \<not> on prereqFlag
                        \<or> variationIndex (evalResult.detail r) \<noteq> Some (prerequisite.variation prereq)
                then
                  Some (Inr (Some \<lparr>prereqFailure.err = None,
                                    reason = PREREQUISITE_FAILED (prerequisite.key prereq)\<rparr>, evs''))
                else checkPrerequisites d opfn newEvalEvent fs f ps u evs'')))"

section \<open>evaluate\<close>

text \<open>
  Modelled from the spec: \<open>stringifyAttrs\<close> (utils/stringifyAttrs.js is not among the
  sources). ``Before evaluation, produce a shallow-rewritten user where \<open>key\<close> and
  \<open>secondary\<close>, if numeric/boolean, are coerced to strings. Other built-ins are left
  untouched.''
\<close>

definition stringifyValue :: "jvalue \<Rightarrow> jvalue" where
  "stringifyValue v =
     (case v of
        JInt i \<Rightarrow> JStr (jsString v)
      | JNonInt s \<Rightarrow> JStr (jsString v)
      | JBool b \<Rightarrow> JStr (jsString v)
      | _ \<Rightarrow> v)"

fun stringifyAttrs :: "user \<Rightarrow> string list \<Rightarrow> user" where
  "stringifyAttrs u [] = u"
| "stringifyAttrs u (a # as) =
     stringifyAttrs
       (case props u a of
          None \<Rightarrow> u
        | Some v \<Rightarrow> u\<lparr>props := (props u)(a \<mapsto> stringifyValue v)\<rparr>)
       as"

definition userAttrsToStringifyForEvaluation :: "string list" where
  "userAttrsToStringifyForEvaluation = [''key'', ''secondary'']"

text \<open>
  \<open>evaluate(flag, user, featureStore, eventFactory)\<close>: \<open>None\<close> for a missing flag or user.
  The result is \<open>None\<close> when the nesting bound \<open>d\<close> is exceeded, \<open>Some (Inl e)\<close> when an
  exception leaves the function, and otherwise the returned object.
\<close>

definition evaluate ::
  "nat \<Rightarrow> (string \<Rightarrow> jvalue \<Rightarrow> jvalue \<Rightarrow> bool) \<Rightarrow> (flag \<Rightarrow> user \<Rightarrow> detail \<Rightarrow> flag \<Rightarrow> 'e)
     \<Rightarrow> flag option \<Rightarrow> user option \<Rightarrow> featureStore \<Rightarrow> (js_error + 'e evaluation) option" where
  "evaluate d opfn newEvalEvent fo uo fs =
     (let userNotSpecified =
            Some (Inr \<lparr>evaluation.err = None, detail = errorResult ''USER_NOT_SPECIFIED'',
                      events = []\<rparr>)
      in (case uo of
            None \<Rightarrow> userNotSpecified
          | Some u \<Rightarrow>
              (case props u ''key'' of
                 None \<Rightarrow> userNotSpecified
               | Some k \<Rightarrow>
                   if k = JNull then userNotSpecified
                   else
                     (case fo of
                        None \<Rightarrow>
                          Some (Inr \<lparr>evaluation.err = None,
                                    detail = errorResult ''FLAG_NOT_FOUND'', events = []\<rparr>)
                      | Some f \<Rightarrow>
                          (let sanitizedUser = stringifyAttrs u userAttrsToStringifyForEvaluation
                           in (case evalInternal d opfn newEvalEvent fs f sanitizedUser [] of
                                 None \<Rightarrow> None
                               | Some (Inl e) \<Rightarrow> Some (Inl e)
                               | Some (Inr (r, evs)) \<Rightarrow>
                                   Some (Inr \<lparr>evaluation.err = evalResult.err r,
                                             detail = evalResult.detail r,
                                             events = evs\<rparr>)))))))"

section \<open>The claims about rollouts in the specification's words\<close>



section \<open>Example flags, rules and stores\<close>

text \<open>An operator table that knows \<open>in\<close> only, for the examples.\<close>

definition opIn :: "string \<Rightarrow> jvalue \<Rightarrow> jvalue \<Rightarrow> bool" where
  "opIn name a b = (name = ''in'' \<and> strictEq a b)"

definition emptyFeatureStore :: featureStore where
  "emptyFeatureStore = \<lparr>getFeature = (\<lambda>k. None), getSegment = (\<lambda>v. None)\<rparr>"

definition noEvent :: "flag \<Rightarrow> user \<Rightarrow> detail \<Rightarrow> flag \<Rightarrow> unit" where
  "noEvent prereqFlag u d f = ()"

definition ruleEmptyClauses :: rule where
  "ruleEmptyClauses =
     \<lparr>variationOrRollout.variation = Some 1, rollout = None, id' = Some ''r1'', clauses = Some []\<rparr>"

definition clauseKeyIn :: clause where
  "clauseKeyIn =
     \<lparr>attribute = ''key'', op = ''in'', clause.values = Some [JStr ''userKeyA''], negate = False\<rparr>"

definition ruleKeyIn :: rule where
  "ruleKeyIn =
     \<lparr>variationOrRollout.variation = Some 1, rollout = None, id' = Some ''r2'',
      clauses = Some [clauseKeyIn]\<rparr>"

definition flagOff :: flag where
  "flagOff =
     \<lparr>flag.key = ''feature'', on = False, variations = Some [JStr ''a'', JStr ''b'', JStr ''c''],
      offVariation = None,
      fallthrough = Some \<lparr>variationOrRollout.variation = Some 0, rollout = None\<rparr>,
      prerequisites = [], targets = [], rules = [], salt = ''''\<rparr>"

definition userEmptyKey :: user where
  "userEmptyKey = \<lparr>props = [''key'' \<mapsto> JStr []], custom = None\<rparr>"

definition userNullKey :: user where
  "userNullKey = \<lparr>props = [''key'' \<mapsto> JNull], custom = None\<rparr>"




section \<open>The client's variation methods (index.js)\<close>

text \<open>
  What \<open>variation\<close> and \<open>variationDetail\<close> read of the client: the \<open>offline\<close> option,
  whether initialisation has completed, whether the store reports itself initialised,
  and the store's flags and segments. Logging, error reporting and the sending of
  analytics events do not influence the returned value and are left out.
\<close>

record client =
  offline :: bool
  initComplete :: bool
  storeInitialized :: bool
  clientStore :: featureStore

text \<open>The client's own \<open>errorResult(errorKind, defaultVal)\<close>.\<close>

definition clientErrorResult :: "string \<Rightarrow> jvalue \<Rightarrow> detail" where
  "clientErrorResult errorKind defaultVal =
     \<lparr>value = defaultVal, variationIndex = None, reason = ERROR errorKind\<rparr>"

text \<open>
  \<open>variationInternal\<close>: the outer \<open>None\<close> is a computation cut off at nesting depth \<open>d\<close>;
  \<open>Some None\<close> is the function returning \<open>undefined\<close>, which is what happens when the
  \<open>catch\<close> block has run, since it reports the error and returns nothing.
\<close>

definition variationInternal ::
  "nat \<Rightarrow> (string \<Rightarrow> jvalue \<Rightarrow> jvalue \<Rightarrow> bool) \<Rightarrow> (flag \<Rightarrow> user \<Rightarrow> detail \<Rightarrow> flag \<Rightarrow> 'e)
     \<Rightarrow> client \<Rightarrow> string \<Rightarrow> user option \<Rightarrow> jvalue \<Rightarrow> detail option option" where
  "variationInternal d opfn newEvalEvent c flagKey uo defaultVal =
     (if offline c then Some (Some (clientErrorResult ''CLIENT_NOT_READY'' defaultVal))
      else if flagKey = [] then Some (Some (clientErrorResult ''FLAG_NOT_FOUND'' defaultVal))
      else
        (case getFeature (clientStore c) flagKey of
           None \<Rightarrow> Some (Some (clientErrorResult ''FLAG_NOT_FOUND'' defaultVal))
         | Some f \<Rightarrow>
             (case uo of
                None \<Rightarrow> Some (Some (clientErrorResult ''USER_NOT_SPECIFIED'' defaultVal))
              | Some u \<Rightarrow>
                  (case evaluate d opfn newEvalEvent (Some f) (Some u) (clientStore c) of
                     None \<Rightarrow> None
                   | Some (Inl e) \<Rightarrow> Some None
                   | Some (Inr r) \<Rightarrow>
                       (let dt = evaluation.detail r in
                        if variationIndex dt = None
                        then Some (Some (dt\<lparr>value := defaultVal\<rparr>))
                        else Some (Some dt))))))"

definition evaluateIfPossible ::
  "nat \<Rightarrow> (string \<Rightarrow> jvalue \<Rightarrow> jvalue \<Rightarrow> bool) \<Rightarrow> (flag \<Rightarrow> user \<Rightarrow> detail \<Rightarrow> flag \<Rightarrow> 'e)
     \<Rightarrow> client \<Rightarrow> string \<Rightarrow> user option \<Rightarrow> jvalue \<Rightarrow> detail option option" where
  "evaluateIfPossible d opfn newEvalEvent c flagKey uo defaultVal =
     (if \<not> initComplete c then
        (if storeInitialized c
         then variationInternal d opfn newEvalEvent c flagKey uo defaultVal
         else Some (Some (clientErrorResult ''CLIENT_NOT_READY'' defaultVal)))
      else variationInternal d opfn newEvalEvent c flagKey uo defaultVal)"

text \<open>
  \<open>client.variationDetail\<close> returns what \<open>evaluateIfPossible\<close> returns; \<open>client.variation\<close>
  reads \<open>.value\<close> of it, which throws a \<open>TypeError\<close> on \<open>undefined\<close>.
\<close>

definition variationDetail ::
  "nat \<Rightarrow> (string \<Rightarrow> jvalue \<Rightarrow> jvalue \<Rightarrow> bool) \<Rightarrow> (flag \<Rightarrow> user \<Rightarrow> detail \<Rightarrow> flag \<Rightarrow> 'e)
     \<Rightarrow> client \<Rightarrow> string \<Rightarrow> user option \<Rightarrow> jvalue \<Rightarrow> detail option option" where
  "variationDetail d opfn newEvalEvent c flagKey uo defaultVal =
     evaluateIfPossible d opfn newEvalEvent c flagKey uo defaultVal"

definition variation ::
  "nat \<Rightarrow> (string \<Rightarrow> jvalue \<Rightarrow> jvalue \<Rightarrow> bool) \<Rightarrow> (flag \<Rightarrow> user \<Rightarrow> detail \<Rightarrow> flag \<Rightarrow> 'e)
     \<Rightarrow> client \<Rightarrow> string \<Rightarrow> user option \<Rightarrow> jvalue \<Rightarrow> (js_error + jvalue) option" where
  "variation d opfn newEvalEvent c flagKey uo defaultVal =
     (case evaluateIfPossible d opfn newEvalEvent c flagKey uo defaultVal of
        None \<Rightarrow> None
      | Some None \<Rightarrow> Some (Inl TypeError)
      | Some (Some dt) \<Rightarrow> Some (Inr (detail.value dt)))"

section \<open>An example client\<close>

definition flagNoVariations :: flag where
  "flagNoVariations =
     \<lparr>flag.key = ''feature'', on = True, variations = None, offVariation = None,
      fallthrough = Some \<lparr>variationOrRollout.variation = Some 0, rollout = None\<rparr>,
      prerequisites = [], targets = [], rules = [], salt = ''''\<rparr>"

definition clientWithFlag :: client where
  "clientWithFlag =
     \<lparr>offline = False, initComplete = True, storeInitialized = True,
      clientStore = \<lparr>getFeature = (\<lambda>k. if k = ''feature'' then Some flagNoVariations else None),
                     getSegment = (\<lambda>v. None)\<rparr>\<rparr>"

section \<open>The stream processor (streaming.js)\<close>

text \<open>
  What the callback \<open>cb\<close> of \<open>start\<close> is called with: \<open>None\<close> for \<open>cb()\<close>, an
  \<open>LDStreamingError\<close> with its message and status, or the error a request of the requestor
  failed with.
\<close>

datatype cbError = LDStreamingError string "int option" | RequestError string

text \<open>
  The data of a stream event: absent or empty (\<open>e && e.data\<close> is false), text that
  \<open>JSON.parse\<close> rejects, or the parsed value.
\<close>

datatype 'b payload = NoData | BadJson | Json 'b

record 'a snapshot =
  dataFlags :: "(string \<rightharpoonup> 'a entry) option"
  dataSegments :: "(string \<rightharpoonup> 'a entry) option"

text \<open>
  The events the processor listens to, each with what it will find: for \<open>put\<close> the parsed
  message's \<open>data\<close> (\<open>None\<close> when the message has none), for \<open>patch\<close> and \<open>delete\<close> the path with
  the item or version, for the indirect events the answer of the requestor (taken as
  parsed), and for a transport error its \<open>status\<close> and message as \<open>handleError\<close> gets them.
\<close>

datatype 'a streamEvent =
    Put "'a snapshot option payload"
  | Patch "(string \<times> 'a item) payload"
  | Delete "(string \<times> int) payload"
  | IndirectPut "string + 'a snapshot"
  | IndirectPatch "string option" "string + 'a item"
  | StreamError "int option" string

text \<open>
  The processor's state: the feature store it feeds (the in-memory store), the calls of
  \<open>cb\<close> so far in order, and the answers \<open>handleError\<close> gave the event source
  (\<open>True\<close> to retry, \<open>False\<close> to shut down).
\<close>

record 'a processor =
  pstore :: "'a store"
  cbCalls :: "cbError option list"
  retryAnswers :: "bool list"

definition cb :: "'a processor \<Rightarrow> cbError option \<Rightarrow> 'a processor" where
  "cb p arg = p\<lparr>cbCalls := cbCalls p @ [arg]\<rparr>"

definition getKeyFromPath :: "kind \<Rightarrow> string \<Rightarrow> string option" where
  "getKeyFromPath k path =
     (if take (length (streamApiPath k)) path = streamApiPath k
      then Some (drop (length (streamApiPath k)) path) else None)"

text \<open>The loop \<open>for (const k in dataKind)\<close> up to its \<open>break\<close>: the first kind the path routes to.\<close>

fun routePath :: "kind list \<Rightarrow> string \<Rightarrow> (kind \<times> string) option" where
  "routePath [] path = None"
| "routePath (k # ks) path =
     (case getKeyFromPath k path of
        Some ky \<Rightarrow> Some (k, ky)
      | None \<Rightarrow> routePath ks path)"

definition initDataOf :: "'a snapshot \<Rightarrow> (string \<rightharpoonup> (string \<rightharpoonup> 'a entry))" where
  "initDataOf d =
     (\<lambda>ns. if ns = namespace segments then dataSegments d
           else if ns = namespace features then dataFlags d
           else None)"

text \<open>
  \<open>errors.isHttpErrorRecoverable\<close> (errors.js is not among the sources) is the parameter
  \<open>recoverable\<close>.
\<close>

definition handleError :: "(int \<Rightarrow> bool) \<Rightarrow> 'a processor \<Rightarrow> int option \<Rightarrow> string \<Rightarrow> 'a processor" where
  "handleError recoverable p status message =
     (if (case status of None \<Rightarrow> False | Some st \<Rightarrow> st \<noteq> 0 \<and> \<not> recoverable st)
      then (cb p (Some (LDStreamingError message status)))\<lparr>retryAnswers := retryAnswers p @ [False]\<rparr>
      else p\<lparr>retryAnswers := retryAnswers p @ [True]\<rparr>)"

definition reportJsonError :: "'a processor \<Rightarrow> 'a processor" where
  "reportJsonError p = cb p (Some (LDStreamingError ''Malformed JSON data in event stream'' None))"

definition unexpectedPayload :: "'a processor \<Rightarrow> 'a processor" where
  "unexpectedPayload p = cb p (Some (LDStreamingError ''Unexpected payload from event stream'' None))"

text \<open>One event: the listener that the event's name selects, or the error filter.\<close>

fun onEvent :: "(int \<Rightarrow> bool) \<Rightarrow> 'a processor \<Rightarrow> 'a streamEvent \<Rightarrow> js_error + 'a processor" where
  "onEvent recoverable p (Put NoData) = Inr (unexpectedPayload p)"
| "onEvent recoverable p (Put BadJson) = Inr (reportJsonError p)"
| "onEvent recoverable p (Put (Json None)) = Inl TypeError"
| "onEvent recoverable p (Put (Json (Some d))) =
     Inr (cb (p\<lparr>pstore := store_init (pstore p) (initDataOf d)\<rparr>) None)"
| "onEvent recoverable p (Patch NoData) = Inr (unexpectedPayload p)"
| "onEvent recoverable p (Patch BadJson) = Inr (reportJsonError p)"
| "onEvent recoverable p (Patch (Json (path, it))) =
     (case routePath dataKind path of
        None \<Rightarrow> Inr p
      | Some (k, ky) \<Rightarrow> Inr (p\<lparr>pstore := store_upsert (pstore p) k it\<rparr>))"
| "onEvent recoverable p (Delete NoData) = Inr (unexpectedPayload p)"
| "onEvent recoverable p (Delete BadJson) = Inr (reportJsonError p)"
| "onEvent recoverable p (Delete (Json (path, v))) =
     (case routePath dataKind path of
        None \<Rightarrow> Inr p
      | Some (k, ky) \<Rightarrow> Inr (p\<lparr>pstore := store_delete (pstore p) k ky v\<rparr>))"
| "onEvent recoverable p (IndirectPut (Inl e)) = Inr (cb p (Some (RequestError e)))"
| "onEvent recoverable p (IndirectPut (Inr d)) =
     Inr (cb (p\<lparr>pstore := store_init (pstore p) (initDataOf d)\<rparr>) None)"
| "onEvent recoverable p (IndirectPatch None res) = Inr (unexpectedPayload p)"
| "onEvent recoverable p (IndirectPatch (Some path) res) =
     (if path = [] then Inr (unexpectedPayload p)
      else
        (case routePath dataKind path of
           None \<Rightarrow> Inr p
         | Some (k, ky) \<Rightarrow>
             (case res of
                Inl e \<Rightarrow>
                  Inr (cb p (Some (LDStreamingError
                        (''Unexpected error requesting '' @ ky @ '' in '' @ namespace k) None)))
              | Inr it \<Rightarrow> Inr (p\<lparr>pstore := store_upsert (pstore p) k it\<rparr>))))"
| "onEvent recoverable p (StreamError status message) =
     Inr (handleError recoverable p status message)"

text \<open>The events of a connection in the order they arrive; an exception ends the run.\<close>

fun onEvents :: "(int \<Rightarrow> bool) \<Rightarrow> 'a processor \<Rightarrow> 'a streamEvent list \<Rightarrow> js_error + 'a processor" where
  "onEvents recoverable p [] = Inr p"
| "onEvents recoverable p (ev # evs) =
     (case onEvent recoverable p ev of
        Inl e \<Rightarrow> Inl e
      | Inr p' \<Rightarrow> onEvents recoverable p' evs)"

definition startProcessor :: "'a processor" where
  "startProcessor = \<lparr>pstore = newStore, cbCalls = [], retryAnswers = []\<rparr>"

section \<open>The callback's invocations, event by event\<close>

text \<open>
  What each event makes of the callback: a \<open>put\<close> or a successful \<open>indirect/put\<close> calls it
  with no error; an event without payload, with malformed JSON, or whose request failed
  calls it with that error; a transport error calls it when its status is non-zero
  and not recoverable; a \<open>patch\<close> or \<open>delete\<close> that was applied, and a recoverable
  transport error, do not call it.
\<close>

fun signalled :: "(int \<Rightarrow> bool) \<Rightarrow> 'a streamEvent \<Rightarrow> cbError option list" where
  "signalled recoverable (Put NoData) =
     [Some (LDStreamingError ''Unexpected payload from event stream'' None)]"
| "signalled recoverable (Put BadJson) =
     [Some (LDStreamingError ''Malformed JSON data in event stream'' None)]"
| "signalled recoverable (Put (Json None)) = []"
| "signalled recoverable (Put (Json (Some d))) = [None]"
| "signalled recoverable (Patch NoData) =
     [Some (LDStreamingError ''Unexpected payload from event stream'' None)]"
| "signalled recoverable (Patch BadJson) =
     [Some (LDStreamingError ''Malformed JSON data in event stream'' None)]"
| "signalled recoverable (Patch (Json x)) = []"
| "signalled recoverable (Delete NoData) =
     [Some (LDStreamingError ''Unexpected payload from event stream'' None)]"
| "signalled recoverable (Delete BadJson) =
     [Some (LDStreamingError ''Malformed JSON data in event stream'' None)]"
| "signalled recoverable (Delete (Json x)) = []"
| "signalled recoverable (IndirectPut (Inl e)) = [Some (RequestError e)]"
| "signalled recoverable (IndirectPut (Inr d)) = [None]"
| "signalled recoverable (IndirectPatch None res) =
     [Some (LDStreamingError ''Unexpected payload from event stream'' None)]"
| "signalled recoverable (IndirectPatch (Some path) res) =
     (if path = [] then [Some (LDStreamingError ''Unexpected payload from event stream'' None)]
      else
        (case (routePath dataKind path, res) of
           (Some (k, ky), Inl e) \<Rightarrow>
             [Some (LDStreamingError
                (''Unexpected error requesting '' @ ky @ '' in '' @ namespace k) None)]
         | _ \<Rightarrow> []))"
| "signalled recoverable (StreamError status message) =
     (case status of
        None \<Rightarrow> []
      | Some st \<Rightarrow>
          if st \<noteq> 0 \<and> \<not> recoverable st then [Some (LDStreamingError message status)] else [])"

section \<open>Example stream events\<close>

definition snapshotFoo :: "unit snapshot" where
  "snapshotFoo =
     \<lparr>dataFlags = Some [''foo'' \<mapsto> Item (mkItem ''foo'' 10)], dataSegments = Some Map.empty\<rparr>"

text \<open>Modelled from the spec: ``Non-recoverable: 401, 403, any 4xx that is not 408, 429.''\<close>

definition isHttpErrorRecoverable :: "int \<Rightarrow> bool" where
  "isHttpErrorRecoverable st = (if 400 \<le> st \<and> st < 500 then st = 408 \<or> st = 429 else True)"

section \<open>Evaluating the hash on the inputs used below\<close>

lemma replicate_numeral_eval: "replicate (numeral k) x = x # replicate (pred_numeral k) x"
  by (simp add: numeral_eq_Suc)












text \<open>
  The two-block test vector of FIPS 180: the padding, both compressions and the digest.
\<close>

lemma pad_fips:
  "be_words (sha1_pad (map of_char ''abcdbcdecdefdefgefghfghighijhijkijkljklmklmnlmnomnopnopq'')) =
     [1633837924, 1650680933, 1667523942, 1684366951, 1701209960, 1718052969, 1734895978, 1751738987, 1768581996, 1785425005, 1802268014, 1819111023, 1835954032, 1852797041, 2147483648, 0, 0, 0, 0, 0, 0, 0, 0, 0, 0, 0, 0, 0, 0, 0, 0, 448]"
  by (simp add: sha1_pad_def be_bytes8_def replicate_numeral_eval)

lemma rounds_fips_1:
  "sha1_rounds 80 0
     [1633837924, 1650680933, 1667523942, 1684366951, 1701209960, 1718052969, 1734895978, 1751738987, 1768581996, 1785425005, 1802268014, 1819111023, 1835954032, 1852797041, 2147483648, 0]
     (0x67452301, 0xEFCDAB89, 0x98BADCFE, 0x10325476, 0xC3D2E1F0) =
   (2363704599, 3551362085, 1800280195, 1949637842, 2256765826)"
  by (simp add: next_w_def rotl_def sha1_f_def sha1_k_def)

lemma rounds_fips_2:
  "sha1_rounds 80 0
     [0, 0, 0, 0, 0, 0, 0, 0, 0, 0, 0, 0, 0, 0, 0, 448]
     (4096288792, 3279628206, 67696001, 2221371720, 1247176050) =
   (2423248428, 1489021632, 3064288544, 1961474205, 2599422847)"
  by (simp add: next_w_def rotl_def sha1_f_def sha1_k_def)

lemma compress_fips_1:
  "compress (0x67452301, 0xEFCDAB89, 0x98BADCFE, 0x10325476, 0xC3D2E1F0)
     [1633837924, 1650680933, 1667523942, 1684366951, 1701209960, 1718052969, 1734895978, 1751738987, 1768581996, 1785425005, 1802268014, 1819111023, 1835954032, 1852797041, 2147483648, 0] =
   (4096288792, 3279628206, 67696001, 2221371720, 1247176050)"
  by (simp add: compress_def rounds_fips_1 del: sha1_rounds.simps)

lemma compress_fips_2:
  "compress (4096288792, 3279628206, 67696001, 2221371720, 1247176050)
     [0, 0, 0, 0, 0, 0, 0, 0, 0, 0, 0, 0, 0, 0, 0, 448] =
   (2224569924, 473682542, 3131984545, 4182845925, 3846598897)"
  by (simp add: compress_def rounds_fips_2 del: sha1_rounds.simps)

lemma sha1Hex_fips:
  "sha1Hex ''abcdbcdecdefdefgefghfghighijhijkijkljklmklmnlmnomnopnopq'' = ''84983e441c3bd26ebaae4aa1f95129e5e54670f1''"
proof -
  have "sha1 (map of_char ''abcdbcdecdefdefgefghfghighijhijkijkljklmklmnlmnomnopnopq'') = (2224569924, 473682542, 3131984545, 4182845925, 3846598897)"
    unfolding sha1_def pad_fips
    by (simp add: sha1_init_def compress_fips_1 compress_fips_2)
  then show ?thesis
    unfolding sha1Hex_def by (simp add: hexWord_def hexDigit_def)
qed

section \<open>Reading a digest back as a number\<close>













section \<open>Bucketing: formula, range and golden value\<close>






section \<open>Attribute lookup\<close>

text \<open>
  C5 (amended). The built-in names are \<open>key, ip, country, email, firstName, lastName,
  avatar, name, anonymous\<close>. A built-in name that is an own property of the user resolves to
  the top-level value. Every other lookup (a name that is not built-in, \<open>secondary\<close>
  included, or a built-in name the user does not have) resolves to the entry of
  \<open>user.custom\<close> when there is one, and to \<open>null\<close> otherwise.
\<close>

theorem userValue_resolution:
  "set builtins = {''key'', ''ip'', ''country'', ''email'', ''firstName'', ''lastName'',
                   ''avatar'', ''name'', ''anonymous''}
   \<and> (attr \<in> set builtins \<and> props u attr = Some v \<longrightarrow> userValue u attr = v)
   \<and> ((attr \<notin> set builtins \<or> props u attr = None) \<and> custom u = Some c \<and> c attr = Some v
        \<longrightarrow> userValue u attr = v)
   \<and> ((attr \<notin> set builtins \<or> props u attr = None)
        \<and> (custom u = None \<or> (custom u = Some c \<and> c attr = None))
        \<longrightarrow> userValue u attr = JNull)"
proof -
  have b: "set builtins = {''key'', ''ip'', ''country'', ''email'', ''firstName'', ''lastName'',
                   ''avatar'', ''name'', ''anonymous''}"
    unfolding builtins_def by (simp only: list.set)
  have t: "attr \<in> set builtins \<and> props u attr = Some v \<longrightarrow> userValue u attr = v"
    unfolding userValue_def by simp
  have c: "(attr \<notin> set builtins \<or> props u attr = None) \<and> custom u = Some c \<and> c attr = Some v
        \<longrightarrow> userValue u attr = v"
    unfolding userValue_def by auto
  have n: "(attr \<notin> set builtins \<or> props u attr = None)
        \<and> (custom u = None \<or> (custom u = Some c \<and> c attr = None))
        \<longrightarrow> userValue u attr = JNull"
    unfolding userValue_def by auto
  from b t c n show ?thesis by (intro conjI)
qed

theorem userValue_resolution_witness:
  "props userBob ''key'' = Some (JStr ''x'') \<and> userValue userBob ''key'' = JStr ''x''
   \<and> props userBob ''name'' = None \<and> userValue userBob ''name'' = JStr ''Bob''
   \<and> props userBob ''secondary'' = Some (JStr ''s'') \<and> userValue userBob ''secondary'' = JNull"
proof -
  have k: "''key'' \<in> set builtins \<and> props userBob ''key'' = Some (JStr ''x'')"
    by (simp add: builtins_def userBob_def)
  have n: "(''name'' \<notin> set builtins \<or> props userBob ''name'' = None)
      \<and> custom userBob = Some [''name'' \<mapsto> JStr ''Bob'']
      \<and> [''name'' \<mapsto> JStr ''Bob''] ''name'' = Some (JStr ''Bob'')"
    by (simp add: userBob_def)
  have s: "(''secondary'' \<notin> set builtins \<or> props userBob ''secondary'' = None)
      \<and> custom userBob = Some [''name'' \<mapsto> JStr ''Bob'']
      \<and> [''name'' \<mapsto> JStr ''Bob''] ''secondary'' = None"
    by (simp add: builtins_def userBob_def)
  from k n s
    userValue_resolution [where attr = "''key''" and u = userBob and v = "JStr ''x''"
      and c = "[''name'' \<mapsto> JStr ''Bob'']"]
    userValue_resolution [where attr = "''name''" and u = userBob and v = "JStr ''Bob''"
      and c = "[''name'' \<mapsto> JStr ''Bob'']"]
    userValue_resolution [where attr = "''secondary''" and u = userBob and v = "JStr ''Bob''"
      and c = "[''name'' \<mapsto> JStr ''Bob'']"]
  show ?thesis by (simp add: userBob_def)
qed

text \<open>
  C5 as first stated fails for the user \<open>{key: 'x', secondary: 's', custom: {name: 'Bob'}}\<close>:
  \<open>name\<close> is built-in and absent from the top level, yet it resolves to the custom value;
  \<open>secondary\<close> is present at the top level, yet it resolves to \<open>null\<close>.
\<close>

theorem userValue_counterexample:
  "userValue userBob ''name'' = JStr ''Bob''
   \<and> claimed_userValue userBob ''name'' = JNull
   \<and> userValue userBob ''secondary'' = JNull
   \<and> claimed_userValue userBob ''secondary'' = JStr ''s''"
  by (simp add: userValue_def claimed_userValue_def builtins_def claimed_builtins_def userBob_def)

section \<open>The in-memory store: versions, tombstones and null entries\<close>

text \<open>
  C10. When the entry stored for a kind and key is \<open>null\<close>, \<open>upsert\<close> of any item with
  that key leaves the store as it is (and \<open>upsert\<close> of any item at all leaves the entry
  \<open>null\<close>), whereas \<open>delete\<close> with any version replaces the entry by the tombstone
  \<open>{version: v, deleted: true}\<close>.
\<close>

theorem null_entry_upsert_keeps_delete_replaces:
  assumes "allData s (namespace k) = Some items" and "items ky = Some Null"
  shows "store_upsert s k (it\<lparr>item.key := ky\<rparr>) = s
    \<and> (\<exists>items'. allData (store_upsert s k it) (namespace k) = Some items' \<and> items' ky = Some Null)
    \<and> store_delete s k ky v = s\<lparr>allData := (allData s)(namespace k \<mapsto> items(ky \<mapsto> Tombstone v))\<rparr>"
proof -
  have a: "store_upsert s k (it\<lparr>item.key := ky\<rparr>) = s"
    using assms by (simp add: store_upsert_def Let_def)
  have b: "\<exists>items'. allData (store_upsert s k it) (namespace k) = Some items' \<and> items' ky = Some Null"
    using assms by (auto simp: store_upsert_def Let_def split: option.splits)
  have c: "store_delete s k ky v =
      s\<lparr>allData := (allData s)(namespace k \<mapsto> items(ky \<mapsto> Tombstone v))\<rparr>"
    using assms by (simp add: store_delete_def)
  from a b c show ?thesis by (intro conjI)
qed

theorem null_entry_upsert_keeps_delete_replaces_witness:
  "entryOf nullEntryStore features ''foo'' = Some Null
   \<and> store_upsert nullEntryStore features (mkItem ''foo'' 5) = nullEntryStore
   \<and> entryOf (store_delete nullEntryStore features ''foo'' 5) features ''foo''
       = Some (Tombstone 5)"
proof -
  have h1: "allData nullEntryStore (namespace features) = Some [''foo'' \<mapsto> Null]"
    by (simp add: nullEntryStore_def store_init_def features_def)
  have h2: "[''foo'' \<mapsto> (Null :: unit entry)] ''foo'' = Some Null"
    by simp
  have i: "(mkItem ''foo'' 5)\<lparr>item.key := ''foo''\<rparr> = mkItem ''foo'' 5"
    by (simp add: mkItem_def)
  have e: "entryOf nullEntryStore features ''foo'' = Some Null"
    by (simp add: entryOf_def h1)
  from null_entry_upsert_keeps_delete_replaces [OF h1 h2, of "mkItem ''foo'' 5" 5]
  have "store_upsert nullEntryStore features (mkItem ''foo'' 5) = nullEntryStore"
    and "entryOf (store_delete nullEntryStore features ''foo'' 5) features ''foo''
       = Some (Tombstone 5)"
    by (simp_all add: i entryOf_def)
  with e show ?thesis by (intro conjI)
qed

text \<open>
  C2: the code loses a tombstone. After \<open>init\<close> with data for the \<open>features\<close> namespace
  only, \<open>delete(segments, 'seg', 11)\<close> stores its tombstone under the property
  \<open>[object Object]\<close> of \<open>allData\<close>, not under \<open>segments\<close>; the following
  \<open>upsert(segments, {key: 'seg', version: 10})\<close> finds no entry and stores the older item,
  which \<open>get\<close> then returns.
\<close>

theorem delete_in_missing_namespace_loses_tombstone:
  "allData (store_delete initedStore segments ''seg'' 11) ''segments'' = None
   \<and> allData (store_delete initedStore segments ''seg'' 11) ''[object Object]''
       = Some [''seg'' \<mapsto> Tombstone 11]
   \<and> store_get
         (store_upsert (store_delete initedStore segments ''seg'' 11) segments (mkItem ''seg'' 10))
         segments ''seg''
       = Some (mkItem ''seg'' 10)"
  by (simp add: store_get_def store_upsert_def store_delete_def initedStore_def store_init_def
      segments_def mkItem_def Let_def)




section \<open>The version invariant where the namespace exists\<close>

text \<open>
  In a store that holds the kind's namespace, with no \<open>null\<close> entry under the key, every
  update keeps these two properties and leaves as the stored version the larger of the
  stored one and its own; so after any sequence of updates the stored version is the
  largest version seen for the key. (This is the behaviour that \<open>delete\<close> misses when the
  namespace is absent.)
\<close>

lemma maxVersion_None_right: "maxVersion v None = v"
  by (cases v) simp_all

lemma applyOp_version:
  assumes "allData s (namespace k) \<noteq> None" and "entryOf s k ky \<noteq> Some Null"
  shows "allData (applyOp k s upd) (namespace k) \<noteq> None
    \<and> entryOf (applyOp k s upd) k ky \<noteq> Some Null
    \<and> storedVersion (applyOp k s upd) k ky = maxVersion (storedVersion s k ky) (opVersion ky upd)"
proof -
  from assms(1) obtain items where items: "allData s (namespace k) = Some items"
    by auto
  show ?thesis
  proof (cases upd)
    case (OpUpsert it)
    show ?thesis
    proof (cases "item.key it = ky")
      case True
      with assms(2) items OpUpsert show ?thesis
        by (cases "items ky"; cases "the (items ky)")
          (auto simp: store_upsert_def entryOf_def storedVersion_def Let_def maxVersion_None_right)
    next
      case False
      with assms(2) items OpUpsert show ?thesis
        by (cases "items (item.key it)"; cases "entryVersion (the (items (item.key it)))")
          (auto simp: store_upsert_def entryOf_def storedVersion_def Let_def maxVersion_None_right)
    qed
  next
    case (OpDelete ky' v)
    show ?thesis
    proof (cases "ky' = ky")
      case True
      with assms(2) items OpDelete show ?thesis
        by (cases "items ky"; cases "the (items ky)")
          (auto simp: store_delete_def entryOf_def storedVersion_def maxVersion_None_right)
    next
      case False
      with assms(2) items OpDelete show ?thesis
        by (cases "items ky'"; cases "entryVersion (the (items ky'))")
          (auto simp: store_delete_def entryOf_def storedVersion_def maxVersion_None_right)
    qed
  qed
qed

lemma applyOps_version:
  "allData s (namespace k) \<noteq> None \<Longrightarrow> entryOf s k ky \<noteq> Some Null
   \<Longrightarrow> storedVersion (foldl (applyOp k) s ops) k ky
       = foldl maxVersion (storedVersion s k ky) (map (opVersion ky) ops)"
proof (induction ops arbitrary: s)
  case Nil
  then show ?case by simp
next
  case (Cons upd ops)
  from applyOp_version [OF Cons.prems, of upd]
  have a: "allData (applyOp k s upd) (namespace k) \<noteq> None"
    and b: "entryOf (applyOp k s upd) k ky \<noteq> Some Null"
    and c: "storedVersion (applyOp k s upd) k ky
        = maxVersion (storedVersion s k ky) (opVersion ky upd)"
    by simp_all
  from Cons.IH [OF a b] c show ?case by simp
qed

lemma foldl_maxVersion_upper:
  "w \<in> set ws \<Longrightarrow> w = Some x \<Longrightarrow> \<exists>y. foldl maxVersion v ws = Some y \<and> x \<le> y"
proof (induction ws arbitrary: v)
  case Nil
  then show ?case by simp
next
  case (Cons a ws)
  have mono: "\<exists>y'. foldl maxVersion (Some y) ws = Some y' \<and> y \<le> y'" for y ws
  proof (induction ws arbitrary: y)
    case Nil
    then show ?case by simp
  next
    case (Cons a ws)
    show ?case
    proof (cases a)
      case None
      with Cons.IH [of y] show ?thesis by simp
    next
      case (Some z)
      with Cons.IH [of "max y z"] show ?thesis by auto
    qed
  qed
  show ?case
  proof (cases "w = a")
    case True
    with Cons.prems(2) mono [of "case v of None \<Rightarrow> x | Some y \<Rightarrow> max y x" ws]
    show ?thesis by (cases v) auto
  next
    case False
    with Cons.prems have "w \<in> set ws" by simp
    from Cons.IH [OF this Cons.prems(2)] show ?thesis by simp
  qed
qed

lemma stored_version_not_below_any_update:
  assumes "allData s (namespace k) \<noteq> None" and "entryOf s k ky \<noteq> Some Null"
    and "upd \<in> set ops" and "opVersion ky upd = Some x"
  shows "\<exists>y. storedVersion (foldl (applyOp k) s ops) k ky = Some y \<and> x \<le> y"
proof -
  from assms(3) have "opVersion ky upd \<in> set (map (opVersion ky) ops)"
    by simp
  from foldl_maxVersion_upper [OF this assms(4)] applyOps_version [OF assms(1,2)]
  show ?thesis by simp
qed

section \<open>Rule matching\<close>

lemma ruleClausesLoop_True_iff:
  "ruleClausesLoop opfn fs cs u = Inr True
     \<longleftrightarrow> (\<forall>c \<in> set cs. clauseMatchUser opfn fs c u = Inr True)"
  by (induction cs) (auto split: sum.splits)

text \<open>
  C4 (amended). A rule matches the user exactly when its \<open>clauses\<close> list is present and
  every clause in it matches the user. A rule whose list is empty therefore matches every
  user; a rule without a \<open>clauses\<close> field matches none.
\<close>

theorem ruleMatchUser_iff_all_clauses:
  "(ruleMatchUser opfn fs r u = Inr True
      \<longleftrightarrow> (\<exists>cs. rule.clauses r = Some cs
             \<and> (\<forall>c \<in> set cs. clauseMatchUser opfn fs c u = Inr True)))
   \<and> (rule.clauses r = Some [] \<longrightarrow> ruleMatchUser opfn fs r u = Inr True)
   \<and> (rule.clauses r = None \<longrightarrow> ruleMatchUser opfn fs r u = Inr False)"
  by (cases "rule.clauses r") (simp_all add: ruleMatchUser_def ruleClausesLoop_True_iff)

theorem ruleMatchUser_iff_all_clauses_witness:
  "rule.clauses ruleKeyIn = Some [clauseKeyIn]
   \<and> clauseMatchUser opIn emptyFeatureStore clauseKeyIn userKeyA = Inr True
   \<and> ruleMatchUser opIn emptyFeatureStore ruleKeyIn userKeyA = Inr True"
proof -
  have c: "rule.clauses ruleKeyIn = Some [clauseKeyIn]"
    by (simp add: ruleKeyIn_def)
  have m: "clauseMatchUser opIn emptyFeatureStore clauseKeyIn userKeyA = Inr True"
    by (simp add: clauseMatchUser_def clauseMatchUserNoSegments_def clauseKeyIn_def
        userKeyA_def userValue_def builtins_def matchAny_def opIn_def maybeNegate_def)
  have "\<exists>cs. rule.clauses ruleKeyIn = Some cs
      \<and> (\<forall>c \<in> set cs. clauseMatchUser opIn emptyFeatureStore c userKeyA = Inr True)"
    using c m by simp
  then have "ruleMatchUser opIn emptyFeatureStore ruleKeyIn userKeyA = Inr True"
    using ruleMatchUser_iff_all_clauses [of opIn emptyFeatureStore ruleKeyIn userKeyA]
    by blast
  with c m show ?thesis by (intro conjI)
qed

text \<open>
  C4 as first stated fails for a rule whose \<open>clauses\<close> list is empty: \<open>!r.clauses\<close> is
  false for an empty array, the loop body never runs, and the rule matches.
\<close>

theorem ruleMatchUser_empty_clauses_counterexample:
  "rule.clauses ruleEmptyClauses = Some []
   \<and> ruleMatchUser opIn emptyFeatureStore ruleEmptyClauses userKeyA = Inr True"
  by (simp add: ruleMatchUser_def ruleEmptyClauses_def)

section \<open>evaluate: missing user, missing flag\<close>

text \<open>
  C6 (amended). For every flag (present or missing), store and event factory: when the
  user is missing or its \<open>key\<close> is \<open>null\<close> or absent, \<open>evaluate\<close> returns \<open>err = null\<close>,
  the detail \<open>{value: null, variationIndex: null, reason: ERROR{USER_NOT_SPECIFIED}}\<close> and
  no events. For every user whose key is neither absent nor \<open>null\<close> (the empty string
  included) and a missing flag, it returns \<open>err = null\<close>, the detail with
  \<open>ERROR{FLAG_NOT_FOUND}\<close> and no events.
\<close>

theorem evaluate_user_not_specified_flag_not_found:
  "((uo = None \<or> (\<exists>u. uo = Some u \<and> (props u ''key'' = None \<or> props u ''key'' = Some JNull)))
      \<longrightarrow> evaluate d opfn newEvalEvent fo uo fs =
            Some (Inr \<lparr>evaluation.err = None,
                      detail = \<lparr>value = JNull, variationIndex = None,
                                reason = ERROR ''USER_NOT_SPECIFIED''\<rparr>,
                      events = []\<rparr>))
   \<and> ((\<exists>u k. uo = Some u \<and> props u ''key'' = Some k \<and> k \<noteq> JNull)
      \<longrightarrow> evaluate d opfn newEvalEvent None uo fs =
            Some (Inr \<lparr>evaluation.err = None,
                      detail = \<lparr>value = JNull, variationIndex = None,
                                reason = ERROR ''FLAG_NOT_FOUND''\<rparr>,
                      events = []\<rparr>))"
  by (auto simp: evaluate_def errorResult_def)

theorem evaluate_user_not_specified_flag_not_found_witness:
  "props userNullKey ''key'' = Some JNull
   \<and> evaluate 1 opIn noEvent (Some flagOff) (Some userNullKey) emptyFeatureStore =
        Some (Inr \<lparr>evaluation.err = None,
                  detail = \<lparr>value = JNull, variationIndex = None,
                            reason = ERROR ''USER_NOT_SPECIFIED''\<rparr>,
                  events = []\<rparr>)
   \<and> props userEmptyKey ''key'' = Some (JStr [])
   \<and> evaluate 1 opIn noEvent None (Some userEmptyKey) emptyFeatureStore =
        Some (Inr \<lparr>evaluation.err = None,
                  detail = \<lparr>value = JNull, variationIndex = None,
                            reason = ERROR ''FLAG_NOT_FOUND''\<rparr>,
                  events = []\<rparr>)"
proof -
  have n: "props userNullKey ''key'' = Some JNull"
    by (simp add: userNullKey_def)
  have e: "props userEmptyKey ''key'' = Some (JStr [])"
    by (simp add: userEmptyKey_def)
  have h1: "Some userNullKey = None \<or> (\<exists>u. Some userNullKey = Some u
      \<and> (props u ''key'' = None \<or> props u ''key'' = Some JNull))"
    using n by simp
  have h2: "\<exists>u k. Some userEmptyKey = Some u \<and> props u ''key'' = Some k \<and> k \<noteq> JNull"
    using e by simp
  from evaluate_user_not_specified_flag_not_found
    [of "Some userNullKey" 1 opIn noEvent "Some flagOff" emptyFeatureStore] h1
  have a: "evaluate 1 opIn noEvent (Some flagOff) (Some userNullKey) emptyFeatureStore =
        Some (Inr \<lparr>evaluation.err = None,
                  detail = \<lparr>value = JNull, variationIndex = None,
                            reason = ERROR ''USER_NOT_SPECIFIED''\<rparr>,
                  events = []\<rparr>)"
    by blast
  from evaluate_user_not_specified_flag_not_found
    [of "Some userEmptyKey" 1 opIn noEvent None emptyFeatureStore] h2
  have b: "evaluate 1 opIn noEvent None (Some userEmptyKey) emptyFeatureStore =
        Some (Inr \<lparr>evaluation.err = None,
                  detail = \<lparr>value = JNull, variationIndex = None,
                            reason = ERROR ''FLAG_NOT_FOUND''\<rparr>,
                  events = []\<rparr>)"
    by blast
  from n a e b show ?thesis by (intro conjI)
qed

text \<open>
  C6 as first stated fails in two places. A user whose key is the empty string is
  evaluated: for a flag that is off and has no off variation the reason is \<open>OFF\<close>, not
  \<open>ERROR{USER_NOT_SPECIFIED}\<close>. And with a missing flag, a user whose key is \<open>null\<close> gets
  \<open>USER_NOT_SPECIFIED\<close>, not \<open>FLAG_NOT_FOUND\<close>, the user being checked first.
\<close>

theorem evaluate_empty_key_counterexample:
  "props userEmptyKey ''key'' = Some (JStr [])
   \<and> evaluate 1 opIn noEvent (Some flagOff) (Some userEmptyKey) emptyFeatureStore =
        Some (Inr \<lparr>evaluation.err = None,
                  detail = \<lparr>value = JNull, variationIndex = None, reason = OFF\<rparr>,
                  events = []\<rparr>)
   \<and> evaluate 1 opIn noEvent None (Some userNullKey) emptyFeatureStore =
        Some (Inr \<lparr>evaluation.err = None,
                  detail = \<lparr>value = JNull, variationIndex = None,
                            reason = ERROR ''USER_NOT_SPECIFIED''\<rparr>,
                  events = []\<rparr>)"
  by (simp add: evaluate_def userEmptyKey_def userNullKey_def flagOff_def getOffResult_def
      errorResult_def userAttrsToStringifyForEvaluation_def stringifyValue_def)

section \<open>Resolving a variation or rollout\<close>








section \<open>variation and variationDetail when evaluation throws\<close>

text \<open>
  C8: the code throws. For a flag that is on, falls through to variation 0 and has no
  \<open>variations\<close> array, \<open>getVariation\<close> reads \<open>flag.variations.length\<close> and a \<open>TypeError\<close>
  leaves \<open>evaluate\<close>. \<open>variationInternal\<close> catches it, reports it and returns nothing:
  \<open>variationDetail\<close> returns \<open>undefined\<close> instead of a detail with the default value, and
  \<open>variation\<close> throws a \<open>TypeError\<close> on reading \<open>.value\<close>.
\<close>

theorem variation_throws_when_evaluate_throws:
  "evaluate 1 opIn noEvent (Some flagNoVariations) (Some userKeyA) (clientStore clientWithFlag)
     = Some (Inl TypeError)
   \<and> variationDetail 1 opIn noEvent clientWithFlag ''feature'' (Some userKeyA) (JStr ''default'')
     = Some None
   \<and> variation 1 opIn noEvent clientWithFlag ''feature'' (Some userKeyA) (JStr ''default'')
     = Some (Inl TypeError)"
proof -
  have e: "evaluate (Suc 0) opIn noEvent (Some flagNoVariations) (Some userKeyA)
      (clientStore clientWithFlag) = Some (Inl TypeError)"
    by (simp add: evaluate_def userKeyA_def flagNoVariations_def evalRules_def
        getResultForVariationOrRollout_def variationForUser_def getVariation_def
        userAttrsToStringifyForEvaluation_def stringifyValue_def)
  have f: "getFeature (clientStore clientWithFlag) ''feature'' = Some flagNoVariations"
    by (simp add: clientWithFlag_def)
  have o: "\<not> offline clientWithFlag \<and> initComplete clientWithFlag"
    by (simp add: clientWithFlag_def)
  have d: "variationDetail 1 opIn noEvent clientWithFlag ''feature'' (Some userKeyA)
      (JStr ''default'') = Some None"
    by (simp add: variationDetail_def evaluateIfPossible_def variationInternal_def e f o)
  have v: "variation 1 opIn noEvent clientWithFlag ''feature'' (Some userKeyA)
      (JStr ''default'') = Some (Inl TypeError)"
    by (simp add: variation_def evaluateIfPossible_def variationInternal_def e f o)
  from e d v show ?thesis by simp
qed

section \<open>Error details carry the default value when evaluation returns\<close>

text \<open>
  Whenever \<open>evaluate\<close> returns (no exception), a detail whose reason is an \<open>ERROR\<close> has no
  variation index, so that \<open>variationInternal\<close> puts the caller's default value into it;
  the client's own error details carry the default value from the start.
\<close>

lemma getVariation_error_index:
  "getVariation f idx rsn = Inr r \<Longrightarrow> (\<And>k. rsn \<noteq> ERROR k)
   \<Longrightarrow> detail.reason (evalResult.detail r) = ERROR k' \<Longrightarrow> variationIndex (evalResult.detail r) = None"
  by (auto simp: getVariation_def errorResult_def split: option.splits if_splits)

lemma getOffResult_error_index:
  "getOffResult f rsn = Inr r \<Longrightarrow> (\<And>k. rsn \<noteq> ERROR k)
   \<Longrightarrow> detail.reason (evalResult.detail r) = ERROR k' \<Longrightarrow> variationIndex (evalResult.detail r) = None"
  by (cases "offVariation f") (auto simp: getOffResult_def dest: getVariation_error_index)

lemma getResultForVariationOrRollout_error_index:
  "getResultForVariationOrRollout ro u f rsn = Inr r \<Longrightarrow> (\<And>k. rsn \<noteq> ERROR k)
   \<Longrightarrow> detail.reason (evalResult.detail r) = ERROR k' \<Longrightarrow> variationIndex (evalResult.detail r) = None"
  by (auto simp: getResultForVariationOrRollout_def errorResult_def
      split: option.splits dest: getVariation_error_index)

lemma rulesLoop_error_index:
  "rulesLoop opfn fs f rs u = Inr r
   \<Longrightarrow> detail.reason (evalResult.detail r) = ERROR k' \<Longrightarrow> variationIndex (evalResult.detail r) = None"
proof (induction rs)
  case Nil
  then show ?case
    by (auto dest: getResultForVariationOrRollout_error_index)
next
  case (Cons a rs)
  then show ?case
    by (auto split: sum.splits if_splits dest: getResultForVariationOrRollout_error_index)
qed

lemma evalRules_error_index:
  "evalRules opfn fs f u = Inr r
   \<Longrightarrow> detail.reason (evalResult.detail r) = ERROR k' \<Longrightarrow> variationIndex (evalResult.detail r) = None"
  by (auto simp: evalRules_def split: option.splits
      dest: getVariation_error_index rulesLoop_error_index)

lemma checkPrerequisites_reason:
  "checkPrerequisites d opfn newEvalEvent fs f ps u evs = Some (Inr (Some failure, evs'))
   \<Longrightarrow> \<exists>k. prereqFailure.reason failure = PREREQUISITE_FAILED k"
proof (induction ps arbitrary: evs)
  case Nil
  then show ?case by simp
next
  case (Cons p ps)
  then show ?case
    by (auto simp: Let_def split: option.splits sum.splits prod.splits if_splits)
qed

lemma evalInternal_error_index:
  "evalInternal d opfn newEvalEvent fs f u evs = Some (Inr (r, evs'))
   \<Longrightarrow> detail.reason (evalResult.detail r) = ERROR k' \<Longrightarrow> variationIndex (evalResult.detail r) = None"
proof (cases d)
  case 0
  assume "evalInternal d opfn newEvalEvent fs f u evs = Some (Inr (r, evs'))"
  with 0 show ?thesis by simp
next
  case (Suc d')
  assume e: "evalInternal d opfn newEvalEvent fs f u evs = Some (Inr (r, evs'))"
    and k: "detail.reason (evalResult.detail r) = ERROR k'"
  show ?thesis
  proof (cases "on f")
    case False
    with e Suc have "getOffResult f OFF = Inr r"
      by (auto split: sum.splits)
    from getOffResult_error_index [OF this _ k] show ?thesis by simp
  next
    case True
    show ?thesis
    proof (cases "checkPrerequisites d' opfn newEvalEvent fs f (prerequisites f) u evs")
      case None
      with e Suc True show ?thesis by simp
    next
      case (Some res)
      show ?thesis
      proof (cases res)
        case (Inl x)
        with e Suc True Some show ?thesis by simp
      next
        case (Inr pr)
        obtain fo evs1 where pr: "pr = (fo, evs1)" by (cases pr)
        show ?thesis
        proof (cases fo)
          case None
          with e Suc True Some Inr pr have "evalRules opfn fs f u = Inr r"
            by (auto split: sum.splits)
          from evalRules_error_index [OF this k] show ?thesis .
        next
          case (Some failure)
          with \<open>checkPrerequisites d' opfn newEvalEvent fs f (prerequisites f) u evs = Some res\<close>
            Inr pr
          obtain pk where pk: "prereqFailure.reason failure = PREREQUISITE_FAILED pk"
            using checkPrerequisites_reason by blast
          from e Suc True Some Inr pr
            \<open>checkPrerequisites d' opfn newEvalEvent fs f (prerequisites f) u evs = Some res\<close>
          have "getOffResult f (prereqFailure.reason failure) = Inr r"
            by (auto split: sum.splits)
          from getOffResult_error_index [OF this _ k] pk show ?thesis by simp
        qed
      qed
    qed
  qed
qed

lemma evaluate_error_index:
  "evaluate d opfn newEvalEvent fo uo fs = Some (Inr r)
   \<Longrightarrow> detail.reason (evaluation.detail r) = ERROR k' \<Longrightarrow> variationIndex (evaluation.detail r) = None"
  by (auto simp: evaluate_def errorResult_def Let_def
      split: option.splits sum.splits if_splits dest: evalInternal_error_index)

lemma variationInternal_error_has_default:
  "variationInternal d opfn newEvalEvent c flagKey uo defaultVal = Some (Some dt)
   \<Longrightarrow> detail.reason dt = ERROR k' \<Longrightarrow> detail.value dt = defaultVal"
  by (auto simp: variationInternal_def clientErrorResult_def Let_def
      split: option.splits sum.splits if_splits dest: evaluate_error_index)

section \<open>The stream processor's callback\<close>

lemma cbCalls_onEvent:
  "onEvent recoverable p ev = Inr p' \<Longrightarrow> cbCalls p' = cbCalls p @ signalled recoverable ev"
  by (cases "(recoverable, p, ev)" rule: onEvent.cases)
    (auto simp: cb_def unexpectedPayload_def reportJsonError_def handleError_def
      split: option.splits sum.splits if_splits)

lemma onEvent_returns: "ev \<noteq> Put (Json None) \<Longrightarrow> \<exists>p'. onEvent recoverable p ev = Inr p'"
  by (cases "(recoverable, p, ev)" rule: onEvent.cases)
    (auto split: option.splits sum.splits)

lemma cbCalls_onEvents:
  "onEvents recoverable p evs = Inr p'
   \<Longrightarrow> cbCalls p' = cbCalls p @ concat (map (signalled recoverable) evs)"
proof (induction evs arbitrary: p)
  case Nil
  then show ?case by simp
next
  case (Cons ev evs)
  from Cons.prems obtain q where q: "onEvent recoverable p ev = Inr q"
    and rest: "onEvents recoverable q evs = Inr p'"
    by (auto split: sum.splits)
  from Cons.IH [OF rest] cbCalls_onEvent [OF q] show ?case
    by simp
qed

lemma onEvents_returns:
  "Put (Json None) \<notin> set evs \<Longrightarrow> \<exists>p'. onEvents recoverable p evs = Inr p'"
proof (induction evs arbitrary: p)
  case Nil
  then show ?case by simp
next
  case (Cons ev evs)
  from Cons.prems have "ev \<noteq> Put (Json None)" by auto
  then obtain q where q: "onEvent recoverable p ev = Inr q"
    using onEvent_returns by blast
  from Cons.prems have "Put (Json None) \<notin> set evs" by auto
  from Cons.IH [OF this, of q] q show ?case by simp
qed

text \<open>
  C9 (amended). For every sequence of stream events and transport errors handled after
  \<open>start(cb)\<close>, the callback is invoked once for each event that signals, in order: with no
  error for every \<open>put\<close> (and successful \<open>indirect/put\<close>) whose data is applied, and with an
  error for every event without payload or with malformed JSON, every failed indirect
  request and every transport error whose status is not recoverable. Applied \<open>patch\<close> and
  \<open>delete\<close> events and recoverable transport errors do not invoke it. The number of
  invocations is the number of signalling events, not one. The run handles every event
  unless a \<open>put\<close> message lacks its \<open>data\<close>, which raises a \<open>TypeError\<close>.
\<close>

theorem cb_invoked_for_every_signalling_event:
  "(Put (Json None) \<notin> set evs \<longrightarrow> (\<exists>q. onEvents recoverable p evs = Inr q))
   \<and> (onEvents recoverable p evs = Inr p'
        \<longrightarrow> cbCalls p' = cbCalls p @ concat (map (signalled recoverable) evs))"
  using onEvents_returns cbCalls_onEvents by blast

theorem cb_invoked_for_every_signalling_event_witness:
  "\<exists>q. onEvents isHttpErrorRecoverable startProcessor
          [Put (Json (Some snapshotFoo)), StreamError (Some 500) ''server error'',
           Patch (Json (''/flags/foo'', mkItem ''foo'' 11)),
           StreamError (Some 401) ''unauthorized''] = Inr q
       \<and> cbCalls q = [None, Some (LDStreamingError ''unauthorized'' (Some 401))]"
proof -
  let ?evs = "[Put (Json (Some snapshotFoo)), StreamError (Some 500) ''server error'',
           Patch (Json (''/flags/foo'', mkItem ''foo'' 11)),
           StreamError (Some 401) ''unauthorized'']"
  have n: "Put (Json None) \<notin> set ?evs"
    by simp
  from cb_invoked_for_every_signalling_event
    [of ?evs isHttpErrorRecoverable startProcessor, THEN conjunct1, THEN mp, OF n]
  obtain q where q: "onEvents isHttpErrorRecoverable startProcessor ?evs = Inr q" ..
  from cb_invoked_for_every_signalling_event
    [of ?evs isHttpErrorRecoverable startProcessor q, THEN conjunct2, THEN mp, OF q]
  have "cbCalls q = cbCalls (startProcessor :: unit processor) @ concat (map (signalled isHttpErrorRecoverable) ?evs)" .
  then have "cbCalls q = [None, Some (LDStreamingError ''unauthorized'' (Some 401))]"
    by (simp add: startProcessor_def isHttpErrorRecoverable_def)
  with q show ?thesis by (intro exI conjI)
qed

text \<open>
  C9 as first stated fails: two \<open>put\<close> events invoke the callback twice, and a
  non-recoverable error after a successful \<open>put\<close> invokes it again.
\<close>

theorem cb_invoked_twice_counterexample:
  "(case onEvents isHttpErrorRecoverable startProcessor
           [Put (Json (Some snapshotFoo)), Put (Json (Some snapshotFoo))] of
      Inl e \<Rightarrow> [] | Inr q \<Rightarrow> cbCalls q) = [None, None]
   \<and> (case onEvents isHttpErrorRecoverable startProcessor
           [Put (Json (Some snapshotFoo)), StreamError (Some 401) ''unauthorized''] of
      Inl e \<Rightarrow> [] | Inr q \<Rightarrow> cbCalls q)
       = [None, Some (LDStreamingError ''unauthorized'' (Some 401))]"
  by (simp add: startProcessor_def cb_def handleError_def isHttpErrorRecoverable_def)

end
